theory Spec2Isabelle
  imports Main
begin

section \<open>Data model\<close>

text \<open>
  The development embeds two parts of \<^verbatim>\<open>tinyllava/model/modeling_tinyllava.py\<close>:
  the method \<^verbatim>\<open>prepare_inputs_labels_for_multimodal\<close> (sequence fusion) and the
  checkpoint loader (\<^verbatim>\<open>from_pretrained\<close>, \<^verbatim>\<open>load_llm\<close>,
  \<^verbatim>\<open>load_vision_tower\<close>, \<^verbatim>\<open>load_connector\<close>).

  Python exceptions are values of the type \<open>error\<close>; a function that may raise returns
  \<open>error + 'a\<close> with \<open>Inl\<close> for the exception.
\<close>

datatype error =
    IndexError
  | ValueError
  | RuntimeError
  | NotImplementedError
  | TypeError
  | UnboundLocalError
  | OtherError

text \<open>
  A two-dimensional tensor is the list of its rows together with the size of its second
  dimension (\<^verbatim>\<open>t.shape[1]\<close>), which a tensor has even when it has no row. Floating
  point numbers are kept abstract: the entries of an embedding vector are of a type
  \<open>'a\<close> with a zero, and a vector is an \<open>'a list\<close>.
\<close>

record 'a tensor2d =
  shape1 :: nat
  rows :: "'a list list"

text \<open>
  The position ids are the one tensor on whose entries the method computes
  (\<^verbatim>\<open>torch.arange\<close> in the dtype of the caller's \<^verbatim>\<open>position_ids\<close>), so their tensor
  carries its dtype. The integer dtypes of torch are modelled; a value that a dtype cannot
  hold wraps around in two's complement, as the conversion of torch does. Position ids of
  a floating-point dtype are outside the model.
\<close>

datatype int_dtype = Int8 | Int16 | Int32 | Int64 | UInt8

record 'a typed_tensor2d = "'a tensor2d" +
  dtype :: int_dtype

definition dtype_bits :: "int_dtype \<Rightarrow> nat" where
  "dtype_bits dt = (case dt of Int8 \<Rightarrow> 8 | Int16 \<Rightarrow> 16 | Int32 \<Rightarrow> 32 | Int64 \<Rightarrow> 64 | UInt8 \<Rightarrow> 8)"

definition dtype_signed :: "int_dtype \<Rightarrow> bool" where
  "dtype_signed dt = (case dt of UInt8 \<Rightarrow> False | _ \<Rightarrow> True)"

text \<open>The largest value of a dtype, and the conversion of an integer to a dtype.\<close>

definition dtype_max :: "int_dtype \<Rightarrow> int" where
  "dtype_max dt =
     (if dtype_signed dt then 2 ^ (dtype_bits dt - 1) - 1 else 2 ^ dtype_bits dt - 1)"

definition to_dtype :: "int_dtype \<Rightarrow> int \<Rightarrow> int" where
  "to_dtype dt x =
     (if dtype_signed dt
      then (x + 2 ^ (dtype_bits dt - 1)) mod 2 ^ dtype_bits dt - 2 ^ (dtype_bits dt - 1)
      else x mod 2 ^ dtype_bits dt)"

text \<open>
  What the method reads from \<^verbatim>\<open>self\<close>, from \<^verbatim>\<open>self.config\<close> and from
  \<^verbatim>\<open>tinyllava.utils.constants\<close>. The two constants, the embedding table of the
  language model and the image encoder are not part of the source file and are parameters.
  \<^verbatim>\<open>getattr(config, 'tokenizer_padding_side', 'right')\<close> is the field
  \<open>tokenizer_padding_side\<close> (a missing attribute is \<open>''right''\<close>),
  \<^verbatim>\<open>getattr(config, 'tokenizer_model_max_length', None)\<close> the field
  \<open>tokenizer_model_max_length\<close>.
\<close>

record ('a, 'img) tinyllava =
  has_vision_tower :: bool
  tune_mm_mlp_adapter :: bool
  tokenizer_model_max_length :: "int option"
  tokenizer_padding_side :: string
  IMAGE_TOKEN_INDEX :: int
  IGNORE_INDEX :: int
  hidden_size :: nat
  get_input_embeddings :: "int \<Rightarrow> 'a list"
  encode_images :: "'img \<Rightarrow> 'a list list list"

section \<open>Tensor operations used by the fusion\<close>

text \<open>\<^verbatim>\<open>xs[a:b]\<close> for indices \<open>0 \<le> a\<close> and \<open>0 \<le> b\<close> (Python clamps both to the length).\<close>

definition py_slice :: "int \<Rightarrow> int \<Rightarrow> 'a list \<Rightarrow> 'a list" where
  "py_slice a b xs = take (nat b - nat a) (drop (nat a) xs)"

text \<open>\<^verbatim>\<open>xs[:n]\<close> for any integer \<open>n\<close>; a negative \<open>n\<close> counts from the end.\<close>

definition py_take :: "int \<Rightarrow> 'a list \<Rightarrow> 'a list" where
  "py_take n xs = (if 0 \<le> n then take (nat n) xs else take (length xs - nat (- n)) xs)"

text \<open>
  \<^verbatim>\<open>xs[mask]\<close> with a boolean mask: the shapes must agree, otherwise torch raises
  IndexError.
\<close>

definition mask_select :: "'a list \<Rightarrow> bool list \<Rightarrow> error + 'a list" where
  "mask_select xs m =
     (if length xs \<noteq> length m then Inl IndexError
      else Inr (map fst (filter snd (zip xs m))))"

text \<open>
  \<^verbatim>\<open>[cur[cur_mask] for cur, cur_mask in zip(t, attention_mask)]\<close>: \<open>zip\<close> stops at
  the shorter of the two.
\<close>

fun depad :: "'a list list \<Rightarrow> bool list list \<Rightarrow> error + 'a list list" where
  "depad (x # xs) (m # ms) =
     (case mask_select x m of
        Inl e \<Rightarrow> Inl e
      | Inr r \<Rightarrow> (case depad xs ms of Inl e \<Rightarrow> Inl e | Inr rs \<Rightarrow> Inr (r # rs)))"
| "depad _ _ = Inr []"

text \<open>\<^verbatim>\<open>torch.split(xs, sizes)\<close>: the sizes must sum to the length of \<open>xs\<close>.\<close>

fun split_chunks :: "'a list \<Rightarrow> nat list \<Rightarrow> 'a list list" where
  "split_chunks xs [] = []"
| "split_chunks xs (n # ns) = take n xs # split_chunks (drop n xs) ns"

definition torch_split :: "'a list \<Rightarrow> nat list \<Rightarrow> error + 'a list list" where
  "torch_split xs sizes =
     (if sum_list sizes \<noteq> length xs then Inl RuntimeError else Inr (split_chunks xs sizes))"

text \<open>
  \<^verbatim>\<open>row[start:stop] = src\<close> on a one-dimensional tensor, for \<open>start \<le> stop\<close>: the
  source must have the size of the slice, or size one (it is then broadcast).
\<close>

definition slice_assign :: "nat \<Rightarrow> nat \<Rightarrow> 'a list \<Rightarrow> 'a list \<Rightarrow> error + 'a list" where
  "slice_assign start stop src row =
     (let n = min stop (length row) - start in
      if length src = n then Inr (take start row @ src @ drop (start + n) row)
      else if length src = 1 then Inr (take start row @ replicate n (hd src) @ drop (start + n) row)
      else Inl RuntimeError)"

text \<open>\<^verbatim>\<open>row[start:stop] = v\<close> for a scalar \<open>v\<close>.\<close>

definition slice_fill :: "nat \<Rightarrow> nat \<Rightarrow> 'a \<Rightarrow> 'a list \<Rightarrow> 'a list" where
  "slice_fill start stop v row =
     (let n = min stop (length row) - start in
      take start row @ replicate n v @ drop (start + n) row)"

text \<open>\<^verbatim>\<open>max(...)\<close> of a generator: ValueError when it is empty.\<close>

definition py_max :: "nat list \<Rightarrow> error + nat" where
  "py_max ns = (case ns of [] \<Rightarrow> Inl ValueError | n # rest \<Rightarrow> Inr (fold max rest n))"

text \<open>\<^verbatim>\<open>torch.arange(0, n, dtype=dt)\<close>.\<close>

definition arange :: "int_dtype \<Rightarrow> nat \<Rightarrow> int list" where
  "arange dt n = map (\<lambda>k. to_dtype dt (int k)) [0..<n]"

section \<open>Per-sample interleaving\<close>

text \<open>\<^verbatim>\<open>(cur_input_ids == IMAGE_TOKEN_INDEX).sum()\<close>.\<close>

definition num_images :: "int \<Rightarrow> int list \<Rightarrow> nat" where
  "num_images tok cur_input_ids = length (filter (\<lambda>t. t = tok) cur_input_ids)"

text \<open>
  \<^verbatim>\<open>[-1] + torch.where(cur_input_ids == IMAGE_TOKEN_INDEX)[0].tolist() + [cur_input_ids.shape[0]]\<close>.
\<close>

definition image_token_indices :: "int \<Rightarrow> int list \<Rightarrow> int list" where
  "image_token_indices tok cur_input_ids =
     [-1] @ map int (filter (\<lambda>i. cur_input_ids ! i = tok) [0..<length cur_input_ids])
          @ [int (length cur_input_ids)]"

text \<open>
  The loop over \<^verbatim>\<open>range(len(image_token_indices) - 1)\<close> that cuts a sequence at the
  sentinel positions.
\<close>

definition noim :: "int list \<Rightarrow> 'a list \<Rightarrow> 'a list list" where
  "noim idx xs = map (\<lambda>i. py_slice (idx ! i + 1) (idx ! (i + 1)) xs) [0..<length idx - 1]"

text \<open>
  The state of the loops over the batch: \<^verbatim>\<open>new_input_embeds\<close>, \<^verbatim>\<open>new_labels\<close> and
  the cursor \<^verbatim>\<open>cur_image_idx\<close> into the flat list of image blocks.
\<close>

type_synonym 'a fusion_state = "'a list list list \<times> int list list \<times> nat"

text \<open>
  One turn of \<^verbatim>\<open>for i in range(num_images + 1)\<close>; the state is
  \<^verbatim>\<open>cur_new_input_embeds\<close>, \<^verbatim>\<open>cur_new_labels\<close>, \<^verbatim>\<open>cur_image_idx\<close>.
\<close>

definition interleave_step ::
  "int \<Rightarrow> 'a list list list \<Rightarrow> 'a list list list \<Rightarrow> int list list \<Rightarrow> nat \<Rightarrow> nat
   \<Rightarrow> 'a fusion_state \<Rightarrow> error + 'a fusion_state" where
  "interleave_step ign image_features cur_input_embeds_no_im cur_labels_noim n i st =
     (case st of (cur_new_input_embeds, cur_new_labels, cur_image_idx) \<Rightarrow>
        if length cur_input_embeds_no_im \<le> i \<or> length cur_labels_noim \<le> i then Inl IndexError
        else
          let es = cur_new_input_embeds @ [cur_input_embeds_no_im ! i];
              ls = cur_new_labels @ [cur_labels_noim ! i]
          in if i < n then
               (if length image_features \<le> cur_image_idx then Inl IndexError
                else
                  let cur_image_features = image_features ! cur_image_idx
                  in Inr (es @ [cur_image_features],
                          ls @ [replicate (length cur_image_features) ign],
                          cur_image_idx + 1))
             else Inr (es, ls, cur_image_idx))"

fun interleave_loop ::
  "int \<Rightarrow> 'a list list list \<Rightarrow> 'a list list list \<Rightarrow> int list list \<Rightarrow> nat \<Rightarrow> nat list
   \<Rightarrow> 'a fusion_state \<Rightarrow> error + 'a fusion_state" where
  "interleave_loop ign image_features es ls n [] st = Inr st"
| "interleave_loop ign image_features es ls n (i # is) st =
     (case interleave_step ign image_features es ls n i st of
        Inl e \<Rightarrow> Inl e
      | Inr st' \<Rightarrow> interleave_loop ign image_features es ls n is st')"

text \<open>
  The body of \<^verbatim>\<open>for batch_idx, cur_input_ids in enumerate(input_ids)\<close>. \<open>labels\<close> is
  the list of depadded label rows.
\<close>

definition fuse_sample ::
  "int \<Rightarrow> int \<Rightarrow> (int \<Rightarrow> 'a list) \<Rightarrow> 'a list list list \<Rightarrow> int list list \<Rightarrow> nat \<Rightarrow> int list
   \<Rightarrow> 'a fusion_state \<Rightarrow> error + 'a fusion_state" where
  "fuse_sample tok ign emb image_features labels batch_idx cur_input_ids st =
     (case st of (new_input_embeds, new_labels, cur_image_idx) \<Rightarrow>
        if num_images tok cur_input_ids = 0 then
          (if length image_features \<le> cur_image_idx then Inl IndexError
           else
             let cur_image_features = image_features ! cur_image_idx;
                 cur_input_embeds_1 = map emb cur_input_ids;
                 cur_input_embeds = cur_input_embeds_1 @ py_slice 0 0 cur_image_features
             in if length labels \<le> batch_idx then Inl IndexError
                else Inr (new_input_embeds @ [cur_input_embeds],
                          new_labels @ [labels ! batch_idx],
                          cur_image_idx + 1))
        else
          let idx = image_token_indices tok cur_input_ids;
              cur_input_ids_noim = noim idx cur_input_ids
          in if length labels \<le> batch_idx then Inl IndexError
             else
               let cur_labels = labels ! batch_idx;
                   cur_labels_noim = noim idx cur_labels;
                   split_sizes = map length cur_labels_noim;
                   cur_input_embeds = map emb (concat cur_input_ids_noim)
               in (case torch_split cur_input_embeds split_sizes of
                     Inl e \<Rightarrow> Inl e
                   | Inr cur_input_embeds_no_im \<Rightarrow>
                       (case interleave_loop ign image_features cur_input_embeds_no_im
                               cur_labels_noim (num_images tok cur_input_ids)
                               [0..<num_images tok cur_input_ids + 1] ([], [], cur_image_idx) of
                          Inl e \<Rightarrow> Inl e
                        | Inr (cur_new_input_embeds, cur_new_labels, cur_image_idx') \<Rightarrow>
                            Inr (new_input_embeds @ [concat cur_new_input_embeds],
                                 new_labels @ [concat cur_new_labels],
                                 cur_image_idx'))))"

fun fuse_loop ::
  "int \<Rightarrow> int \<Rightarrow> (int \<Rightarrow> 'a list) \<Rightarrow> 'a list list list \<Rightarrow> int list list \<Rightarrow> nat \<Rightarrow> int list list
   \<Rightarrow> 'a fusion_state \<Rightarrow> error + 'a fusion_state" where
  "fuse_loop tok ign emb image_features labels batch_idx [] st = Inr st"
| "fuse_loop tok ign emb image_features labels batch_idx (cur_input_ids # rest) st =
     (case fuse_sample tok ign emb image_features labels batch_idx cur_input_ids st of
        Inl e \<Rightarrow> Inl e
      | Inr st' \<Rightarrow> fuse_loop tok ign emb image_features labels (Suc batch_idx) rest st')"

section \<open>Padding to the batch\<close>

text \<open>
  The state of the padding loop: \<^verbatim>\<open>new_input_embeds_padded\<close>,
  \<^verbatim>\<open>new_labels_padded\<close>, \<^verbatim>\<open>attention_mask\<close> and \<^verbatim>\<open>position_ids\<close>.
\<close>

type_synonym 'a pad_state = "'a list list list \<times> int list list \<times> bool list list \<times> int list list"

text \<open>
  The three guarded assignments of one branch: \<^verbatim>\<open>t[i, -cur_len:] = ...\<close> when
  \<open>left\<close> holds and \<^verbatim>\<open>t[i, :cur_len] = ...\<close> otherwise, on the rows \<open>i\<close> of the label,
  mask and position tensors.
\<close>

definition assign_rows ::
  "int_dtype \<Rightarrow> bool \<Rightarrow> nat \<Rightarrow> nat \<Rightarrow> int list \<Rightarrow> int list list \<Rightarrow> bool list list
   \<Rightarrow> int list list \<Rightarrow> error + (int list list \<times> bool list list \<times> int list list)" where
  "assign_rows dt left i cur_len cur_new_labels new_labels_padded attention_mask position_ids =
     (if length new_labels_padded \<le> i then Inl IndexError
      else
        let lrow = new_labels_padded ! i;
            start = (if left then length lrow - cur_len else 0);
            stop = (if left then length lrow else cur_len)
        in case slice_assign start stop cur_new_labels lrow of
             Inl e \<Rightarrow> Inl e
           | Inr lrow' \<Rightarrow>
               if length attention_mask \<le> i then Inl IndexError
               else
                 let mrow = attention_mask ! i;
                     mstart = (if left then length mrow - cur_len else 0);
                     mstop = (if left then length mrow else cur_len);
                     mrow' = slice_fill mstart mstop True mrow
                 in if length position_ids \<le> i then Inl IndexError
                    else
                      let prow = position_ids ! i;
                          pstart = (if left then length prow - cur_len else 0);
                          pstop = (if left then length prow else cur_len)
                      in (case slice_assign pstart pstop (arange dt cur_len) prow of
                            Inl e \<Rightarrow> Inl e
                          | Inr prow' \<Rightarrow>
                              Inr (new_labels_padded[i := lrow'],
                                   attention_mask[i := mrow'],
                                   position_ids[i := prow'])))"

text \<open>
  The body of \<^verbatim>\<open>for i, (cur_new_embed, cur_new_labels) in enumerate(zip(...))\<close>.
  \<^verbatim>\<open>torch.zeros\<close> with a negative size raises RuntimeError.
\<close>

definition pad_step ::
  "int_dtype \<Rightarrow> string \<Rightarrow> nat \<Rightarrow> nat \<Rightarrow> nat \<Rightarrow> ('a::zero) list list \<Rightarrow> int list
   \<Rightarrow> 'a pad_state \<Rightarrow> error + 'a pad_state" where
  "pad_step dt padding_side hidden max_len i cur_new_embed cur_new_labels st =
     (case st of (new_input_embeds_padded, new_labels_padded, attention_mask, position_ids) \<Rightarrow>
        let cur_len = length cur_new_embed
        in if max_len < cur_len then Inl RuntimeError
           else
             let zeros = replicate (max_len - cur_len) (replicate hidden 0);
                 left = (padding_side = ''left'');
                 padded = new_input_embeds_padded
                            @ [if left then zeros @ cur_new_embed else cur_new_embed @ zeros]
             in if 0 < cur_len then
                  (case assign_rows dt left i cur_len cur_new_labels
                          new_labels_padded attention_mask position_ids of
                     Inl e \<Rightarrow> Inl e
                   | Inr (l', m', p') \<Rightarrow> Inr (padded, l', m', p'))
                else Inr (padded, new_labels_padded, attention_mask, position_ids))"

fun pad_loop ::
  "int_dtype \<Rightarrow> string \<Rightarrow> nat \<Rightarrow> nat \<Rightarrow> nat \<Rightarrow> (('a::zero) list list \<times> int list) list
   \<Rightarrow> 'a pad_state \<Rightarrow> error + 'a pad_state" where
  "pad_loop dt padding_side hidden max_len i [] st = Inr st"
| "pad_loop dt padding_side hidden max_len i ((cur_new_embed, cur_new_labels) # rest) st =
     (case pad_step dt padding_side hidden max_len i cur_new_embed cur_new_labels st of
        Inl e \<Rightarrow> Inl e
      | Inr st' \<Rightarrow> pad_loop dt padding_side hidden max_len (Suc i) rest st')"

text \<open>
  The section \<^verbatim>\<open># Combine them\<close>: \<open>max_len\<close>, the three tensors filled with the
  ignore label, \<open>False\<close> and \<open>0\<close>, and the padding loop.
\<close>

definition pad_batch ::
  "int_dtype \<Rightarrow> string \<Rightarrow> int \<Rightarrow> nat \<Rightarrow> ('a::zero) list list list \<Rightarrow> int list list
   \<Rightarrow> error + 'a pad_state" where
  "pad_batch dt padding_side ign hidden new_input_embeds new_labels =
     (case py_max (map length new_input_embeds) of
        Inl e \<Rightarrow> Inl e
      | Inr max_len \<Rightarrow>
          let batch_size = length new_input_embeds
          in pad_loop dt padding_side hidden max_len 0 (zip new_input_embeds new_labels)
               ([],
                replicate batch_size (replicate max_len ign),
                replicate batch_size (replicate max_len False),
                replicate batch_size (replicate max_len 0)))"

section \<open>The fusion as a whole\<close>

text \<open>
  Depadding, the loop over the batch and the truncation to
  \<^verbatim>\<open>tokenizer_model_max_length\<close>: the fused samples before padding.
\<close>

definition truncate_samples :: "int option \<Rightarrow> 'a list list \<Rightarrow> 'a list list" where
  "truncate_samples max_length xs =
     (case max_length of None \<Rightarrow> xs | Some n \<Rightarrow> map (py_take n) xs)"

definition fused_samples ::
  "('a, 'img) tinyllava \<Rightarrow> 'a list list list \<Rightarrow> int list list \<Rightarrow> bool list list \<Rightarrow> int list list
   \<Rightarrow> error + ('a list list list \<times> int list list)" where
  "fused_samples self image_features input_ids attention_mask labels =
     (case depad input_ids attention_mask of
        Inl e \<Rightarrow> Inl e
      | Inr input_ids' \<Rightarrow>
          (case depad labels attention_mask of
             Inl e \<Rightarrow> Inl e
           | Inr labels' \<Rightarrow>
               (case fuse_loop (IMAGE_TOKEN_INDEX self) (IGNORE_INDEX self)
                       (get_input_embeddings self) image_features labels' 0 input_ids'
                       ([], [], 0) of
                  Inl e \<Rightarrow> Inl e
                | Inr (new_input_embeds, new_labels, cur_image_idx) \<Rightarrow>
                    Inr (truncate_samples (tokenizer_model_max_length self) new_input_embeds,
                         truncate_samples (tokenizer_model_max_length self) new_labels))))"

text \<open>The fused samples and the four padded tensors built from them.\<close>

definition fuse_and_pad ::
  "('a::zero, 'img) tinyllava \<Rightarrow> int_dtype \<Rightarrow> 'a list list list \<Rightarrow> int list list \<Rightarrow> bool list list
   \<Rightarrow> int list list \<Rightarrow> error + (('a list list list \<times> int list list) \<times> 'a pad_state)" where
  "fuse_and_pad self dt image_features input_ids attention_mask labels =
     (case fused_samples self image_features input_ids attention_mask labels of
        Inl e \<Rightarrow> Inl e
      | Inr (new_input_embeds, new_labels) \<Rightarrow>
          (case pad_batch dt (tokenizer_padding_side self) (IGNORE_INDEX self) (hidden_size self)
                  new_input_embeds new_labels of
             Inl e \<Rightarrow> Inl e
           | Inr padded \<Rightarrow> Inr ((new_input_embeds, new_labels), padded)))"

text \<open>
  An attention mask is a tensor of integers, a boolean one holding 0 and 1:
  \<^verbatim>\<open>.bool()\<close> is \<open>to_bool\<close>, \<^verbatim>\<open>.to(dtype=_attention_mask.dtype)\<close> on a
  boolean tensor is \<open>of_bools\<close>.
\<close>

definition to_bool :: "int list list \<Rightarrow> bool list list" where
  "to_bool m = map (map (\<lambda>x. x \<noteq> 0)) m"

definition of_bools :: "bool list list \<Rightarrow> int list list" where
  "of_bools m = map (map (\<lambda>b. if b then 1 else 0)) m"

text \<open>\<^verbatim>\<open>torch.ones_like(t, dtype=torch.bool)\<close> and \<^verbatim>\<open>torch.full_like(t, v)\<close>.\<close>

definition full_like :: "'b list list \<Rightarrow> 'c \<Rightarrow> 'c list list" where
  "full_like t v = map (\<lambda>r. replicate (length r) v) t"

text \<open>
  The method \<^verbatim>\<open>prepare_inputs_labels_for_multimodal\<close>. The result is the tuple
  \<^verbatim>\<open>(input_ids, position_ids, attention_mask, past_key_values, inputs_embeds, labels)\<close>;
  \<^verbatim>\<open>None\<close> is \<open>None\<close>. The argument \<^verbatim>\<open>image_sizes\<close> is never read and is left out.
  The guard \<^verbatim>\<open>vision_tower is None or images is None or input_ids.shape[1] == 1\<close> is
  written as a case distinction on \<open>images\<close> followed by the two other tests, so that
  the images are at hand past the guard; the three tests have no effect, and their order
  does not matter. \<open>max_len\<close> is the second dimension of the tensors returned, the one
  that the padding computes. \<open>position_dtype\<close> is the dtype of the position ids past the
  defaulting of lines 249-250: the caller's, or \<^verbatim>\<open>torch.long\<close>.
\<close>

definition prepare_inputs_labels_for_multimodal ::
  "('a::zero, 'img) tinyllava \<Rightarrow> int tensor2d \<Rightarrow> int typed_tensor2d option \<Rightarrow> int tensor2d option
   \<Rightarrow> 'kv \<Rightarrow> int tensor2d option \<Rightarrow> 'img option
   \<Rightarrow> error + (int tensor2d option \<times> int typed_tensor2d option \<times> int tensor2d option \<times> 'kv
               \<times> 'a list tensor2d option \<times> int tensor2d option)" where
  "prepare_inputs_labels_for_multimodal self input_ids position_ids attention_mask
       past_key_values labels images =
     (case images of
        None \<Rightarrow> Inr (Some input_ids, position_ids, attention_mask, past_key_values, None, labels)
      | Some imgs \<Rightarrow>
          if \<not> has_vision_tower self \<or> shape1 input_ids = 1
          then Inr (Some input_ids, position_ids, attention_mask, past_key_values, None, labels)
          else
            let image_features = encode_images self imgs
            in if tune_mm_mlp_adapter self then Inl NotImplementedError
               else
                 let position_dtype =
                       (case position_ids of None \<Rightarrow> Int64 | Some p \<Rightarrow> dtype p);
                     attention_mask' =
                       (case attention_mask of
                          None \<Rightarrow> full_like (rows input_ids) True
                        | Some m \<Rightarrow> to_bool (rows m));
                     labels' =
                       (case labels of
                          None \<Rightarrow> full_like (rows input_ids) (IGNORE_INDEX self)
                        | Some l \<Rightarrow> rows l)
                 in (case fuse_and_pad self position_dtype image_features (rows input_ids) attention_mask'
                           labels' of
                      Inl e \<Rightarrow> Inl e
                    | Inr ((new_input_embeds, new_labels),
                           (new_input_embeds_padded, new_labels_padded, new_mask, new_pos)) \<Rightarrow>
                        let max_len = fold max (map length new_input_embeds) 0
                        in Inr (None,
                                (case position_ids of
                                   None \<Rightarrow> None
                                 | Some p \<Rightarrow>
                                     Some \<lparr>shape1 = max_len, rows = new_pos, dtype = dtype p\<rparr>),
                                (case attention_mask of
                                   None \<Rightarrow> None
                                 | Some m \<Rightarrow> Some \<lparr>shape1 = max_len, rows = of_bools new_mask\<rparr>),
                                past_key_values,
                                Some \<lparr>shape1 = max_len, rows = new_input_embeds_padded\<rparr>,
                                (case labels of
                                   None \<Rightarrow> None
                                 | Some l \<Rightarrow> Some \<lparr>shape1 = max_len, rows = new_labels_padded\<rparr>))))"

section \<open>Checkpoint loading\<close>

text \<open>
  A Python \<^verbatim>\<open>dict\<close> is an association list in insertion order; \<open>map_of\<close> looks a key
  up, \<open>dict_set\<close> is \<^verbatim>\<open>d[k] = v\<close>.
\<close>

type_synonym ('k, 'v) dict = "('k \<times> 'v) list"

fun dict_set :: "'k \<Rightarrow> 'v \<Rightarrow> ('k, 'v) dict \<Rightarrow> ('k, 'v) dict" where
  "dict_set k v [] = [(k, v)]"
| "dict_set k v ((k', v') # d) = (if k' = k then (k, v) # d else (k', v') # dict_set k v d)"

text \<open>\<^verbatim>\<open>s.startswith(p)\<close>, \<^verbatim>\<open>s.endswith(p)\<close> and \<^verbatim>\<open>os.path.join(a, b)\<close> (POSIX).\<close>

definition startswith :: "string \<Rightarrow> string \<Rightarrow> bool" where
  "startswith s p = (take (length p) s = p)"

definition endswith :: "string \<Rightarrow> string \<Rightarrow> bool" where
  "endswith s p = (length p \<le> length s \<and> drop (length s - length p) s = p)"

definition path_join :: "string \<Rightarrow> string \<Rightarrow> string" where
  "path_join a b =
     (if startswith b ''/'' then b
      else if a = [] \<or> endswith a ''/'' then a @ b
      else a @ ''/'' @ b)"

text \<open>
  What the loader reads from the file system: \<^verbatim>\<open>os.path.isfile\<close>,
  \<^verbatim>\<open>os.path.isdir\<close>, the tensors of a safetensors file
  (\<^verbatim>\<open>safetensors.torch.load_file\<close>), and the \<^verbatim>\<open>weight_map\<close> entry of a JSON
  index file (\<open>None\<close> when the index has no such entry).
\<close>

record 'v filesystem =
  isfile :: "string \<Rightarrow> bool"
  isdir :: "string \<Rightarrow> bool"
  load_file :: "string \<Rightarrow> (string, 'v) dict"
  json_weight_map :: "string \<Rightarrow> (string, string) dict option"

text \<open>
  Output of \<^verbatim>\<open>print\<close>: \<open>Print s\<close> is a line of text, \<open>PrintError s e\<close> the line
  \<^verbatim>\<open>f"s{e}"\<close> for an exception \<open>e\<close>.
\<close>

datatype message = Print string | PrintError string error

subsection \<open>Merging the shards of an index manifest\<close>

text \<open>
  The loop \<^verbatim>\<open>for tensor_name, file_name in index_data['weight_map'].items()\<close> that
  builds \<^verbatim>\<open>files_to_load\<close>.
\<close>

fun group_by_file ::
  "(string \<times> string) list \<Rightarrow> (string, string list) dict \<Rightarrow> (string, string list) dict" where
  "group_by_file [] files_to_load = files_to_load"
| "group_by_file ((tensor_name, file_name) # rest) files_to_load =
     (let files_to_load1 =
            (case map_of files_to_load file_name of
               None \<Rightarrow> dict_set file_name [] files_to_load
             | Some _ \<Rightarrow> files_to_load);
          names = (case map_of files_to_load1 file_name of None \<Rightarrow> [] | Some ns \<Rightarrow> ns)
      in group_by_file rest (dict_set file_name (names @ [tensor_name]) files_to_load1))"

text \<open>
  The state of the two nested loops over the shards: \<^verbatim>\<open>full_state_dict\<close> and the
  printed output.
\<close>

type_synonym 'v merge_state = "(string, 'v) dict \<times> message list"

text \<open>The inner loop \<^verbatim>\<open>for tensor_name in tensor_names\<close>.\<close>

fun copy_tensors ::
  "string \<Rightarrow> (string, 'v) dict \<Rightarrow> string list \<Rightarrow> 'v merge_state \<Rightarrow> 'v merge_state" where
  "copy_tensors file_path part_state_dict [] st = st"
| "copy_tensors file_path part_state_dict (tensor_name # rest) (full_state_dict, out) =
     (case map_of part_state_dict tensor_name of
        Some v \<Rightarrow>
          copy_tensors file_path part_state_dict rest
            (dict_set tensor_name v full_state_dict, out)
      | None \<Rightarrow>
          copy_tensors file_path part_state_dict rest
            (full_state_dict,
             out @ [Print (''Warning: Tensor '' @ tensor_name @ '' not found in '' @ file_path)]))"

text \<open>The outer loop \<^verbatim>\<open>for file_name, tensor_names in files_to_load.items()\<close>.\<close>

fun load_shards ::
  "'v filesystem \<Rightarrow> string \<Rightarrow> (string \<times> string list) list \<Rightarrow> 'v merge_state \<Rightarrow> 'v merge_state" where
  "load_shards fs pretrained_path [] st = st"
| "load_shards fs pretrained_path ((file_name, tensor_names) # rest) (full_state_dict, out) =
     (let file_path = path_join pretrained_path file_name
      in if isfile fs file_path then
           load_shards fs pretrained_path rest
             (copy_tensors file_path (load_file fs file_path) tensor_names
                (full_state_dict, out @ [Print (''Loading part from '' @ file_path)]))
         else
           load_shards fs pretrained_path rest
             (full_state_dict,
              out @ [Print (''Warning: Expected safetensors file '' @ file_path @ '' not found.'')]))"

text \<open>The body of \<^verbatim>\<open>if 'weight_map' in index_data\<close>, from an empty \<^verbatim>\<open>full_state_dict\<close>.\<close>

definition merge_shards ::
  "'v filesystem \<Rightarrow> string \<Rightarrow> (string, string) dict \<Rightarrow> 'v merge_state" where
  "merge_shards fs pretrained_path weight_map =
     load_shards fs pretrained_path (group_by_file weight_map []) ([], [])"

subsection \<open>Loading the three components\<close>

text \<open>
  The composed model: its three components, of an abstract type \<open>'c\<close>, and whether the
  language model has been frozen by \<^verbatim>\<open>requires_grad_(False)\<close>. The assignments that
  \<^verbatim>\<open>load_llm\<close> makes to \<^verbatim>\<open>self.config\<close> are left out.
\<close>

record 'c composed =
  language_model :: 'c
  vision_tower :: 'c
  connector :: 'c
  language_model_frozen :: bool

text \<open>
  The methods of the components, which are not part of the source file:
  \<^verbatim>\<open>load_state_dict(state_dict, strict=...)\<close> of torch, the language model's
  \<^verbatim>\<open>from_pretrained(name, **kwargs)\<close>, and \<^verbatim>\<open>load_model\<close> of the vision tower and
  of the connector.
\<close>

record ('c, 'v) methods =
  load_state_dict :: "'c \<Rightarrow> (string, 'v) dict \<Rightarrow> bool \<Rightarrow> error + 'c"
  llm_from_pretrained :: "'c \<Rightarrow> string \<Rightarrow> error + 'c"
  vision_tower_load_model :: "'c \<Rightarrow> string option \<Rightarrow> error + 'c"
  connector_load_model :: "'c \<Rightarrow> error + 'c"

text \<open>The keyword arguments that the loader reads by name.\<close>

record kwargs =
  pretrained_model_path :: "string option"
  model_name_or_path :: "string option"
  pretrained_llm_path :: "string option"

text \<open>
  \<^verbatim>\<open>except RuntimeError\<close> catches RuntimeError and its subclass NotImplementedError.
\<close>

definition is_RuntimeError :: "error \<Rightarrow> bool" where
  "is_RuntimeError e = (e = RuntimeError \<or> e = NotImplementedError)"

text \<open>
  The loop \<^verbatim>\<open>for k, v in full_state_dict.items(): if k.startswith(prefix): d[k[n:]] = v\<close>.
\<close>

fun route :: "string \<Rightarrow> nat \<Rightarrow> (string \<times> 'v) list \<Rightarrow> (string, 'v) dict \<Rightarrow> (string, 'v) dict" where
  "route prefix n [] d = d"
| "route prefix n ((k, v) # rest) d =
     route prefix n rest (if startswith k prefix then dict_set (drop n k) v d else d)"

text \<open>
  A loader returns what it raised or the updated model, together with the output printed
  so far.
\<close>

type_synonym 'c load_result = "(error + 'c composed) \<times> message list"

definition load_llm ::
  "('c, 'v) methods \<Rightarrow> kwargs \<Rightarrow> (string, 'v) dict option \<Rightarrow> 'c composed \<Rightarrow> message list
   \<Rightarrow> 'c load_result" where
  "load_llm api kw full_state_dict self out =
     (case full_state_dict of
        Some fsd \<Rightarrow>
          let out1 = out @ [Print ''Loading language model weights from provided checkpoint (full_state_dict)...''];
              llm_state_dict = route ''language_model.'' 15 fsd []
          in (case load_state_dict api (language_model self) llm_state_dict False of
                Inr c \<Rightarrow>
                  (Inr (self\<lparr>language_model := c, language_model_frozen := True\<rparr>),
                   out1 @ [Print ''Language model weights loaded successfully from full_state_dict.''])
              | Inl e \<Rightarrow>
                  if is_RuntimeError e
                  then (Inl e, out1 @ [PrintError ''Error loading language model weights from full_state_dict: '' e])
                  else (Inl e, out1))
      | None \<Rightarrow>
          let language_model_name =
                (case pretrained_llm_path kw of
                   Some p \<Rightarrow> Some p
                 | None \<Rightarrow> model_name_or_path kw)
          in (case language_model_name of
                None \<Rightarrow>
                  (Inr (self\<lparr>language_model_frozen := True\<rparr>),
                   out @ [Print ''loading language model from  None''])
              | Some name \<Rightarrow>
                  (case llm_from_pretrained api (language_model self) name of
                     Inl e \<Rightarrow> (Inl e, out)
                   | Inr c \<Rightarrow>
                       (Inr (self\<lparr>language_model := c, language_model_frozen := True\<rparr>),
                        out @ [Print (''loading language model from  '' @ name)]))))"

definition load_vision_tower ::
  "('c, 'v) methods \<Rightarrow> kwargs \<Rightarrow> (string, 'v) dict option \<Rightarrow> 'c composed \<Rightarrow> message list
   \<Rightarrow> 'c load_result" where
  "load_vision_tower api kw full_state_dict self out =
     (case full_state_dict of
        Some fsd \<Rightarrow>
          let out1 = out @ [Print ''Loading vision tower weights from provided checkpoint (full_state_dict)...''];
              vision_tower_state_dict = route ''vision_tower.'' 13 fsd []
          in (case load_state_dict api (vision_tower self) vision_tower_state_dict True of
                Inr c \<Rightarrow>
                  (Inr (self\<lparr>vision_tower := c\<rparr>),
                   out1 @ [Print ''Vision tower weights loaded successfully from full_state_dict.''])
              | Inl e \<Rightarrow>
                  if is_RuntimeError e
                  then (Inl e, out1 @ [PrintError ''Error loading vision tower weights from full_state_dict: '' e])
                  else (Inl e, out1))
      | None \<Rightarrow>
          (case vision_tower_load_model api (vision_tower self) (model_name_or_path kw) of
             Inl e \<Rightarrow> (Inl e, out)
           | Inr c \<Rightarrow>
               (Inr (self\<lparr>vision_tower := c\<rparr>),
                out @ [Print (''loading vision tower from  ''
                         @ (case model_name_or_path kw of None \<Rightarrow> ''None'' | Some name \<Rightarrow> name))])))"

definition load_connector ::
  "('c, 'v) methods \<Rightarrow> kwargs \<Rightarrow> (string, 'v) dict option \<Rightarrow> 'c composed \<Rightarrow> message list
   \<Rightarrow> 'c load_result" where
  "load_connector api kw full_state_dict self out =
     (case full_state_dict of
        Some fsd \<Rightarrow>
          let out1 = out @ [Print ''Loading connector weights from provided checkpoint (full_state_dict)...''];
              connector_state_dict = route ''connector.'' 10 fsd []
          in (case load_state_dict api (connector self) connector_state_dict True of
                Inr c \<Rightarrow>
                  (Inr (self\<lparr>connector := c\<rparr>),
                   out1 @ [Print ''Connector weights loaded successfully from full_state_dict.''])
              | Inl e \<Rightarrow>
                  if is_RuntimeError e then
                    let out2 = out1 @ [PrintError ''Error loading connector weights with strict=True from full_state_dict: '' e,
                                       Print ''Attempting to load with strict=False.'']
                    in (case load_state_dict api (connector self) connector_state_dict False of
                          Inr c \<Rightarrow>
                            (Inr (self\<lparr>connector := c\<rparr>),
                             out2 @ [Print ''Connector weights loaded successfully with strict=False from full_state_dict.''])
                        | Inl e' \<Rightarrow> (Inl e', out2))
                  else (Inl e, out1))
      | None \<Rightarrow>
          (case connector_load_model api (connector self) of
             Inl e \<Rightarrow> (Inl e, out)
           | Inr c \<Rightarrow>
               (Inr (self\<lparr>connector := c\<rparr>), out @ [Print ''loading connector with existing logic''])))"

subsection \<open>The class method \<^verbatim>\<open>from_pretrained\<close>\<close>

text \<open>
  The local variable \<^verbatim>\<open>full_state_dict\<close> of \<^verbatim>\<open>from_pretrained\<close>: Python raises
  UnboundLocalError when a local variable is read before any assignment to it.
\<close>

datatype 'a local_variable = Unassigned | Assigned 'a

text \<open>
  The chain \<^verbatim>\<open>if ... elif ...\<close> that assigns \<^verbatim>\<open>full_state_dict\<close>. The value of the
  variable is a dictionary or \<^verbatim>\<open>None\<close>.
\<close>

definition resolve_checkpoint ::
  "'v filesystem \<Rightarrow> string \<Rightarrow> (string, 'v) dict option local_variable \<times> message list" where
  "resolve_checkpoint fs pretrained_path =
     (if isfile fs pretrained_path \<and> endswith pretrained_path ''.safetensors'' then
        (Assigned (Some (load_file fs pretrained_path)),
         [Print (''Found safetensors file at '' @ pretrained_path @ ''. Loading checkpoint.'')])
      else if isdir fs pretrained_path then
        let single_file = path_join pretrained_path ''model.safetensors'';
            index_file = path_join pretrained_path ''model.safetensors.index.json''
        in if isfile fs single_file then
             (Assigned (Some (load_file fs single_file)),
              [Print (''Found model.safetensors at '' @ single_file @ ''. Loading checkpoint.'')])
           else if isfile fs index_file then
             let out = [Print (''Found safetensors index at '' @ index_file
                                 @ ''. Loading split checkpoint from directory.'')]
             in (case json_weight_map fs index_file of
                   None \<Rightarrow> (Assigned (Some []), out)
                 | Some weight_map \<Rightarrow>
                     (case merge_shards fs pretrained_path weight_map of
                        (full_state_dict, out') \<Rightarrow> (Assigned (Some full_state_dict), out @ out')))
           else (Unassigned, [])
      else (Unassigned, []))"

text \<open>
  The three calls \<^verbatim>\<open>model.load_llm(**kwargs)\<close>, \<^verbatim>\<open>model.load_vision_tower(**kwargs)\<close>,
  \<^verbatim>\<open>model.load_connector(**kwargs)\<close>; an exception ends the sequence.
\<close>

definition load_components ::
  "('c, 'v) methods \<Rightarrow> kwargs \<Rightarrow> (string, 'v) dict option \<Rightarrow> 'c composed \<Rightarrow> message list
   \<Rightarrow> 'c load_result" where
  "load_components api kw full_state_dict model out =
     (case load_llm api kw full_state_dict model out of
        (Inl e, out1) \<Rightarrow> (Inl e, out1)
      | (Inr model1, out1) \<Rightarrow>
          (case load_vision_tower api kw full_state_dict model1 out1 of
             (Inl e, out2) \<Rightarrow> (Inl e, out2)
           | (Inr model2, out2) \<Rightarrow> load_connector api kw full_state_dict model2 out2))"

text \<open>
  \<^verbatim>\<open>from_pretrained\<close>. \<open>model\<close> is the freshly constructed \<^verbatim>\<open>cls(config)\<close>.
  \<^verbatim>\<open>os.path.isfile(None)\<close> raises TypeError.
\<close>

definition from_pretrained ::
  "'v filesystem \<Rightarrow> ('c, 'v) methods \<Rightarrow> kwargs \<Rightarrow> 'c composed \<Rightarrow> 'c load_result" where
  "from_pretrained fs api kw model =
     (case pretrained_model_path kw of
        None \<Rightarrow> (Inl TypeError, [])
      | Some pretrained_path \<Rightarrow>
          (case resolve_checkpoint fs pretrained_path of
             (Unassigned, out) \<Rightarrow> (Inl UnboundLocalError, out)
           | (Assigned (Some full_state_dict), out) \<Rightarrow>
               (case load_components api kw (Some full_state_dict) model out of
                  (Inl e, out') \<Rightarrow> (Inl e, out')
                | (Inr model', out') \<Rightarrow>
                    (Inr model',
                     out' @ [Print ''All components (LLM, Vision Tower, Connector) loaded from model.safetensors successfully.'']))
           | (Assigned None, out) \<Rightarrow>
               load_components api kw None model
                 (out @ [Print ''No model.safetensors found from provided config path. Proceeding with default loading behavior.''])))"

section \<open>Specification functions and example inputs\<close>

text \<open>
  A row padded to \<open>max_len\<close> on the configured side, as the specification describes
  the result of the padding step.
\<close>

definition padded_row :: "bool \<Rightarrow> nat \<Rightarrow> 'a \<Rightarrow> 'a list \<Rightarrow> 'a list" where
  "padded_row left max_len pad xs =
     (if left then replicate (max_len - length xs) pad @ xs
      else xs @ replicate (max_len - length xs) pad)"

text \<open>
  A small model instance with \<open>hidden_size = 2\<close>, whose embedding of a token \<open>t\<close>
  is \<open>[t, t]\<close> and whose encoder returns two image blocks of two patches each.
\<close>

definition example_model :: "(int, unit) tinyllava" where
  "example_model = \<lparr>has_vision_tower = True, tune_mm_mlp_adapter = False,
     tokenizer_model_max_length = Some 2048, tokenizer_padding_side = ''right'',
     IMAGE_TOKEN_INDEX = -200, IGNORE_INDEX = -100, hidden_size = 2,
     get_input_embeddings = (\<lambda>t. [t, t]),
     encode_images = (\<lambda>_. [[[1, 1], [2, 2]], [[3, 3], [4, 4]]])\<rparr>"

text \<open>
  The tensor names that a manifest assigns to a shard file, in the order of the manifest,
  and the value that one entry of \<^verbatim>\<open>files_to_load\<close> leaves in the merged dictionary
  under the tensor name \<open>t\<close>, given the value \<open>prev\<close> held before.
\<close>

definition tensors_of :: "(string \<times> string) list \<Rightarrow> string \<Rightarrow> string list" where
  "tensors_of weight_map file_name = map fst (filter (\<lambda>p. snd p = file_name) weight_map)"

definition shard_value ::
  "'v filesystem \<Rightarrow> string \<Rightarrow> string \<Rightarrow> string \<times> string list \<Rightarrow> 'v option \<Rightarrow> 'v option" where
  "shard_value fs p t entry prev =
     (if t \<in> set (snd entry) \<and> isfile fs (path_join p (fst entry))
         \<and> map_of (load_file fs (path_join p (fst entry))) t \<noteq> None
      then map_of (load_file fs (path_join p (fst entry))) t else prev)"

text \<open>
  A checkpoint directory \<open>/ckpt\<close> with an index manifest over two shards, of which
  \<open>shard1.bin\<close> exists and holds \<open>w1\<close> only, and \<open>shard2.bin\<close> is absent; and an
  empty directory \<open>/ckpt\<close>.
\<close>

definition example_weight_map :: "(string, string) dict" where
  "example_weight_map = [(''w1'', ''shard1.bin''), (''w2'', ''shard2.bin''), (''w3'', ''shard1.bin'')]"

definition example_fs :: "int filesystem" where
  "example_fs = \<lparr>
     isfile = (\<lambda>p. p = ''/ckpt/model.safetensors.index.json'' \<or> p = ''/ckpt/shard1.bin''),
     isdir = (\<lambda>p. p = ''/ckpt''),
     load_file = (\<lambda>p. if p = ''/ckpt/shard1.bin'' then [(''w1'', 11)] else []),
     json_weight_map = (\<lambda>p. if p = ''/ckpt/model.safetensors.index.json''
        then Some [(''w1'', ''shard1.bin''), (''w2'', ''shard2.bin''), (''w3'', ''shard1.bin'')]
        else None)\<rparr>"

definition example_fs_empty :: "int filesystem" where
  "example_fs_empty = \<lparr>
     isfile = (\<lambda>p. False),
     isdir = (\<lambda>p. p = ''/ckpt''),
     load_file = (\<lambda>p. []),
     json_weight_map = (\<lambda>p. None)\<rparr>"

text \<open>
  Components that are the lists of the keys they expect. Their \<open>load_state_dict\<close>
  raises RuntimeError under \<^verbatim>\<open>strict=True\<close> when the keys of the state dictionary
  differ from the expected keys, and accepts any state dictionary under
  \<^verbatim>\<open>strict=False\<close>, as torch does for missing and unexpected keys. The first
  checkpoint lacks keys of every component, the second has them all.
\<close>

definition example_methods :: "(string list, int) methods" where
  "example_methods = \<lparr>
     load_state_dict = (\<lambda>c state_dict strict.
        if strict then (if map fst state_dict = c then Inr c else Inl RuntimeError) else Inr c),
     llm_from_pretrained = (\<lambda>c name. Inr c),
     vision_tower_load_model = (\<lambda>c name. Inr c),
     connector_load_model = (\<lambda>c. Inr c)\<rparr>"

definition example_composed :: "string list composed" where
  "example_composed = \<lparr>language_model = [''w''], vision_tower = [''w'', ''b''],
     connector = [''w'', ''b''], language_model_frozen = False\<rparr>"

definition example_kwargs :: kwargs where
  "example_kwargs = \<lparr>pretrained_model_path = Some ''/ckpt'', model_name_or_path = Some ''base'',
     pretrained_llm_path = None\<rparr>"

definition example_checkpoint :: "(string, int) dict" where
  "example_checkpoint = [(''language_model.x'', 1), (''vision_tower.w'', 2), (''connector.w'', 3)]"

definition example_checkpoint_full :: "(string, int) dict" where
  "example_checkpoint_full = [(''language_model.w'', 1), (''vision_tower.w'', 2),
     (''vision_tower.b'', 3), (''connector.w'', 4), (''connector.b'', 5)]"

text \<open>
  A tensor whose rows all have the length that its second dimension announces.
\<close>

definition well_formed :: "'a tensor2d \<Rightarrow> bool" where
  "well_formed t = list_all (\<lambda>r. length r = shape1 t) (rows t)"

text \<open>
  Two variants of the example methods: one whose \<open>load_state_dict\<close> never raises, which
  agrees with the example methods on every permissive load, and one whose permissive load
  always raises, which agrees with them on every strict load.
\<close>

definition example_methods_lenient :: "(string list, int) methods" where
  "example_methods_lenient = example_methods\<lparr>load_state_dict := (\<lambda>c state_dict strict. Inr c)\<rparr>"

definition example_methods_rigid :: "(string list, int) methods" where
  "example_methods_rigid = example_methods\<lparr>load_state_dict := (\<lambda>c state_dict strict.
      if strict then (if map fst state_dict = c then Inr c else Inl RuntimeError)
      else Inl OtherError)\<rparr>"

text \<open>A variant whose \<open>load_state_dict\<close> always raises TypeError, which is no RuntimeError.\<close>

definition example_methods_broken :: "(string list, int) methods" where
  "example_methods_broken =
     example_methods\<lparr>load_state_dict := (\<lambda>c state_dict strict. Inl TypeError)\<rparr>"

section \<open>Lemmas on the fusion\<close>

subsection \<open>Depadding, interleaving and truncation keep embeddings and labels aligned\<close>

lemma mask_select_length:
  "mask_select xs m = Inr r \<Longrightarrow> length r = length (filter (\<lambda>b. b) m)"
proof -
  assume a: "mask_select xs m = Inr r"
  then have len: "length xs = length m" and r: "r = map fst (filter snd (zip xs m))"
    by (auto simp: mask_select_def split: if_splits)
  from len have "length (filter snd (zip xs m)) = length (filter (\<lambda>b. b) m)"
    by (induction xs m rule: list_induct2) auto
  with r show ?thesis by simp
qed

lemma depad_lengths:
  "depad xs ms = Inr rs \<Longrightarrow>
     length rs = min (length xs) (length ms) \<and>
     (\<forall>j < length rs. length (rs ! j) = length (filter (\<lambda>b. b) (ms ! j)))"
proof (induction xs ms arbitrary: rs rule: depad.induct)
  case (1 x xs m ms)
  from "1.prems" obtain r rs' where r: "mask_select x m = Inr r" and rs': "depad xs ms = Inr rs'"
    and rs: "rs = r # rs'"
    by (auto split: sum.splits)
  from "1.IH"[OF r rs'] mask_select_length[OF r] rs show ?case
    by (auto simp: nth_Cons split: nat.splits)
qed auto

lemma depad_same_mask:
  assumes "depad xs ms = Inr rs" and "depad ys ms = Inr ss"
    and "j < length rs" and "j < length ss"
  shows "length (rs ! j) = length (ss ! j)"
  using depad_lengths[OF assms(1)] depad_lengths[OF assms(2)] assms(3,4) by simp

lemma split_chunks_lengths:
  "sum_list ns \<le> length xs \<Longrightarrow> map length (split_chunks xs ns) = ns"
  by (induction ns arbitrary: xs) auto

lemma torch_split_lengths:
  "torch_split xs ns = Inr cs \<Longrightarrow> map length cs = ns"
  by (auto simp: torch_split_def split_chunks_lengths split: if_splits)

lemma interleave_step_lengths:
  assumes "interleave_step ign feats E L n i (es, ls, c) = Inr (es', ls', c')"
    and "map length E = map length L"
    and "map length es = map length ls"
  shows "map length es' = map length ls'"
proof -
  from assms(1) have i: "i < length E" "i < length L"
    by (auto simp: interleave_step_def split: if_splits)
  have "length (E ! i) = length (L ! i)"
    using assms(2) i by (metis nth_map)
  with assms show ?thesis
    by (auto simp: interleave_step_def Let_def split: if_splits)
qed

lemma interleave_loop_lengths:
  "interleave_loop ign feats E L n is (es, ls, c) = Inr (es', ls', c') \<Longrightarrow>
   map length E = map length L \<Longrightarrow> map length es = map length ls \<Longrightarrow>
   map length es' = map length ls'"
proof (induction "is" arbitrary: es ls c)
  case Nil
  then show ?case by simp
next
  case (Cons i "is")
  from Cons.prems(1) obtain es1 ls1 c1 where
    s: "interleave_step ign feats E L n i (es, ls, c) = Inr (es1, ls1, c1)" and
    l: "interleave_loop ign feats E L n is (es1, ls1, c1) = Inr (es', ls', c')"
    by (auto split: sum.splits)
  from interleave_step_lengths[OF s Cons.prems(2,3)] Cons.IH[OF l Cons.prems(2)]
  show ?case by simp
qed

lemma length_concat_cong:
  "map length xs = map length ys \<Longrightarrow> length (concat xs) = length (concat ys)"
  by (simp add: length_concat)

lemma fuse_sample_lengths:
  assumes "fuse_sample tok ign emb feats labels b ids (ne, nl, c) = Inr (ne', nl', c')"
    and "b < length labels \<longrightarrow> length (labels ! b) = length ids"
    and "map length ne = map length nl"
  shows "map length ne' = map length nl'"
proof (cases "num_images tok ids = 0")
  case True
  with assms show ?thesis
    by (auto simp: fuse_sample_def py_slice_def Let_def split: if_splits)
next
  case False
  let ?idx = "image_token_indices tok ids"
  from assms(1) False obtain E es ls where
    sp: "torch_split (map emb (concat (noim ?idx ids))) (map length (noim ?idx (labels ! b))) = Inr E"
    and il: "interleave_loop ign feats E (noim ?idx (labels ! b)) (num_images tok ids)
               [0..<num_images tok ids + 1] ([], [], c) = Inr (es, ls, c')"
    and res: "ne' = ne @ [concat es]" "nl' = nl @ [concat ls]"
    by (auto simp: fuse_sample_def Let_def split: if_splits sum.splits)
  have "map length E = map length (noim ?idx (labels ! b))"
    using torch_split_lengths[OF sp] .
  from interleave_loop_lengths[OF il this] have "map length es = map length ls" by simp
  then have "length (concat es) = length (concat ls)" by (rule length_concat_cong)
  with res assms(3) show ?thesis by simp
qed

lemma fuse_loop_lengths:
  "fuse_loop tok ign emb feats labels b idss (ne, nl, c) = Inr (ne', nl', c') \<Longrightarrow>
   (\<forall>k < length idss. b + k < length labels \<longrightarrow> length (labels ! (b + k)) = length (idss ! k)) \<Longrightarrow>
   map length ne = map length nl \<Longrightarrow>
   map length ne' = map length nl'"
proof (induction idss arbitrary: b ne nl c)
  case Nil
  then show ?case by simp
next
  case (Cons ids idss)
  from Cons.prems(1) obtain ne1 nl1 c1 where
    s: "fuse_sample tok ign emb feats labels b ids (ne, nl, c) = Inr (ne1, nl1, c1)" and
    l: "fuse_loop tok ign emb feats labels (Suc b) idss (ne1, nl1, c1) = Inr (ne', nl', c')"
    by (auto split: sum.splits)
  have h0: "b < length labels \<longrightarrow> length (labels ! b) = length ids"
    using Cons.prems(2) by force
  have hs: "\<forall>k < length idss. Suc b + k < length labels \<longrightarrow>
              length (labels ! (Suc b + k)) = length (idss ! k)"
  proof (intro allI impI)
    fix k assume "k < length idss" "Suc b + k < length labels"
    with Cons.prems(2)[rule_format, of "Suc k"] show "length (labels ! (Suc b + k)) = length (idss ! k)"
      by simp
  qed
  from fuse_sample_lengths[OF s h0 Cons.prems(3)] Cons.IH[OF l hs] show ?case by simp
qed

lemma py_take_length:
  "length xs = length ys \<Longrightarrow> length (py_take n xs) = length (py_take n ys)"
  by (simp add: py_take_def)

lemma truncate_lengths:
  "map length xs = map length ys \<Longrightarrow> map length (truncate_samples n xs) = map length (truncate_samples n ys)"
proof (cases n)
  case None
  assume "map length xs = map length ys"
  with None show ?thesis by (simp add: truncate_samples_def)
next
  case (Some k)
  assume a: "map length xs = map length ys"
  then have len: "length xs = length ys" by (rule map_eq_imp_length_eq)
  have "\<forall>i < length xs. length (py_take k (xs ! i)) = length (py_take k (ys ! i))"
  proof (intro allI impI)
    fix i assume i: "i < length xs"
    then have "length (xs ! i) = length (ys ! i)" using a len by (metis nth_map)
    then show "length (py_take k (xs ! i)) = length (py_take k (ys ! i))" by (rule py_take_length)
  qed
  with len Some show ?thesis
    by (auto simp: truncate_samples_def intro!: nth_equalityI)
qed

lemma fused_samples_lengths:
  assumes "fused_samples self feats input_ids attention_mask labels = Inr (es, ls)"
  shows "map length es = map length ls"
proof -
  from assms obtain ids' labels' ne nl c where
    d1: "depad input_ids attention_mask = Inr ids'" and
    d2: "depad labels attention_mask = Inr labels'" and
    fl: "fuse_loop (IMAGE_TOKEN_INDEX self) (IGNORE_INDEX self) (get_input_embeddings self)
           feats labels' 0 ids' ([], [], 0) = Inr (ne, nl, c)" and
    es: "es = truncate_samples (tokenizer_model_max_length self) ne" and
    ls: "ls = truncate_samples (tokenizer_model_max_length self) nl"
    by (auto simp: fused_samples_def split: sum.splits)
  have "\<forall>k < length ids'. 0 + k < length labels' \<longrightarrow> length (labels' ! (0 + k)) = length (ids' ! k)"
    using depad_same_mask[OF d2 d1] by simp
  from fuse_loop_lengths[OF fl this] have "map length ne = map length nl" by simp
  then show ?thesis unfolding es ls by (rule truncate_lengths)
qed

subsection \<open>The cursor into the image blocks\<close>

lemma interleave_step_cursor:
  "interleave_step ign feats E L n i (es, ls, c) = Inr (es', ls', c') \<Longrightarrow>
   c' = c + (if i < n then 1 else 0)"
  by (auto simp: interleave_step_def Let_def split: if_splits)

lemma interleave_loop_cursor:
  "interleave_loop ign feats E L n is (es, ls, c) = Inr (es', ls', c') \<Longrightarrow>
   c' = c + length (filter (\<lambda>i. i < n) is)"
proof (induction "is" arbitrary: es ls c)
  case Nil
  then show ?case by simp
next
  case (Cons i "is")
  from Cons.prems obtain es1 ls1 c1 where
    s: "interleave_step ign feats E L n i (es, ls, c) = Inr (es1, ls1, c1)" and
    l: "interleave_loop ign feats E L n is (es1, ls1, c1) = Inr (es', ls', c')"
    by (auto split: sum.splits)
  from interleave_step_cursor[OF s] Cons.IH[OF l] show ?case by simp
qed

subsection \<open>Position ids in a dtype\<close>

lemma to_dtype_in_range: "0 \<le> x \<Longrightarrow> x \<le> dtype_max dt \<Longrightarrow> to_dtype dt x = x"
  by (cases dt) (simp_all add: to_dtype_def dtype_max_def dtype_bits_def dtype_signed_def)

lemma arange_in_range:
  assumes "int n \<le> dtype_max dt + 1"
  shows "arange dt n = map int [0..<n]"
proof -
  have "\<forall>k \<in> set [0..<n]. to_dtype dt (int k) = int k"
  proof
    fix k assume "k \<in> set [0..<n]"
    then have "int k \<le> dtype_max dt" using assms by simp
    then show "to_dtype dt (int k) = int k" by (simp add: to_dtype_in_range)
  qed
  then show ?thesis unfolding arange_def by (simp cong: map_cong)
qed

subsection \<open>The rows built by the padding loop\<close>

lemma slice_assign_first:
  "length src \<le> n \<Longrightarrow>
   slice_assign 0 (length src) src (replicate n pad) = Inr (padded_row False n pad src)"
  by (simp add: slice_assign_def padded_row_def min_def)

lemma slice_assign_last:
  "length src \<le> n \<Longrightarrow>
   slice_assign (n - length src) n src (replicate n pad) = Inr (padded_row True n pad src)"
  by (simp add: slice_assign_def padded_row_def)

lemma slice_fill_first:
  "k \<le> n \<Longrightarrow> slice_fill 0 k v (replicate n pad) = padded_row False n pad (replicate k v)"
  by (simp add: slice_fill_def padded_row_def min_def)

lemma slice_fill_last:
  "k \<le> n \<Longrightarrow> slice_fill (n - k) n v (replicate n pad) = padded_row True n pad (replicate k v)"
  by (simp add: slice_fill_def padded_row_def)

lemma assign_rows_fresh:
  assumes "i < length lp" "i < length am" "i < length pi"
    and "lp ! i = replicate ml ign" "am ! i = replicate ml False" "pi ! i = replicate ml 0"
    and "length l = cur_len" "cur_len \<le> ml"
  shows "assign_rows dt left i cur_len l lp am pi =
           Inr (lp[i := padded_row left ml ign l],
                am[i := padded_row left ml False (replicate cur_len True)],
                pi[i := padded_row left ml 0 (arange dt cur_len)])"
proof (cases left)
  case True
  have a: "slice_assign (ml - cur_len) ml l (replicate ml ign) = Inr (padded_row True ml ign l)"
    using slice_assign_last[of l ml ign] assms(7,8) by simp
  have b: "slice_assign (ml - cur_len) ml (arange dt cur_len) (replicate ml 0)
             = Inr (padded_row True ml 0 (arange dt cur_len))"
    using slice_assign_last[of "arange dt cur_len" ml 0] assms(8) by (simp add: arange_def)
  show ?thesis
    using True assms(1-6) a b slice_fill_last[OF assms(8), of True False]
    by (simp add: assign_rows_def)
next
  case False
  have a: "slice_assign 0 cur_len l (replicate ml ign) = Inr (padded_row False ml ign l)"
    using slice_assign_first[of l ml ign] assms(7,8) by simp
  have b: "slice_assign 0 cur_len (arange dt cur_len) (replicate ml 0)
             = Inr (padded_row False ml 0 (arange dt cur_len))"
    using slice_assign_first[of "arange dt cur_len" ml 0] assms(8) by (simp add: arange_def)
  show ?thesis
    using False assms(1-6) a b slice_fill_first[OF assms(8), of True False]
    by (simp add: assign_rows_def)
qed

lemma padded_row_empty: "padded_row left ml pad [] = replicate ml pad"
  by (simp add: padded_row_def)

lemma padded_row_length: "length xs \<le> n \<Longrightarrow> length (padded_row left n pad xs) = n"
  by (simp add: padded_row_def)

lemma pad_step_returns:
  assumes "i < length lp" "i < length am" "i < length pi"
    and "lp ! i = replicate ml ign" "am ! i = replicate ml False" "pi ! i = replicate ml 0"
    and "length l = length e" and "length e \<le> ml"
  shows "pad_step dt side h ml i e l (pe, lp, am, pi) =
           Inr (pe @ [padded_row (side = ''left'') ml (replicate h 0) e],
                lp[i := padded_row (side = ''left'') ml ign l],
                am[i := padded_row (side = ''left'') ml False (replicate (length e) True)],
                pi[i := padded_row (side = ''left'') ml 0 (arange dt (length e))])"
proof (cases "0 < length e")
  case True
  from assign_rows_fresh[OF assms(1-6) assms(7) assms(8), where left = "side = ''left''" and dt = dt]
    assms(8) True
  show ?thesis
    by (auto simp: pad_step_def Let_def padded_row_def)
next
  case False
  then have e: "e = []" "l = []" using assms(7) by auto
  have "lp[i := replicate ml ign] = lp" "am[i := replicate ml False] = am"
       "pi[i := replicate ml 0] = pi"
    using assms(4-6) by (metis list_update_id)+
  with e show ?thesis
    by (auto simp: pad_step_def Let_def padded_row_def arange_def)
qed

lemma pad_step_fresh:
  assumes "pad_step dt side h ml i e l (pe, lp, am, pi) = Inr st'"
    and "i < length lp" "i < length am" "i < length pi"
    and "lp ! i = replicate ml ign" "am ! i = replicate ml False" "pi ! i = replicate ml 0"
    and "length l = length e"
  shows "length e \<le> ml \<and>
         st' = (pe @ [padded_row (side = ''left'') ml (replicate h 0) e],
                lp[i := padded_row (side = ''left'') ml ign l],
                am[i := padded_row (side = ''left'') ml False (replicate (length e) True)],
                pi[i := padded_row (side = ''left'') ml 0 (arange dt (length e))])"
proof -
  from assms(1) have le: "length e \<le> ml"
    by (auto simp: pad_step_def Let_def split: if_splits)
  from pad_step_returns[OF assms(2-7) assms(8) le, where side = side and h = h and pe = pe
      and dt = dt] assms(1) le
  show ?thesis by simp
qed

lemma take_Suc_update: "i < length xs \<Longrightarrow> take (Suc i) (xs[i := x]) = take i xs @ [x]"
  by (simp add: take_Suc_conv_app_nth)

lemma pad_loop_fresh:
  "pad_loop dt side h ml i samples (pe, lp, am, pi) = Inr (pe', lp', am', pi') \<Longrightarrow>
   i + length samples \<le> length lp \<Longrightarrow> i + length samples \<le> length am \<Longrightarrow>
   i + length samples \<le> length pi \<Longrightarrow>
   (\<forall>j. i \<le> j \<and> j < length lp \<longrightarrow> lp ! j = replicate ml ign) \<Longrightarrow>
   (\<forall>j. i \<le> j \<and> j < length am \<longrightarrow> am ! j = replicate ml False) \<Longrightarrow>
   (\<forall>j. i \<le> j \<and> j < length pi \<longrightarrow> pi ! j = replicate ml 0) \<Longrightarrow>
   (\<forall>s \<in> set samples. length (snd s) = length (fst s)) \<Longrightarrow>
   (\<forall>s \<in> set samples. length (fst s) \<le> ml) \<and>
   pe' = pe @ map (\<lambda>s. padded_row (side = ''left'') ml (replicate h 0) (fst s)) samples \<and>
   lp' = take i lp @ map (\<lambda>s. padded_row (side = ''left'') ml ign (snd s)) samples
           @ drop (i + length samples) lp \<and>
   am' = take i am @ map (\<lambda>s. padded_row (side = ''left'') ml False (replicate (length (fst s)) True)) samples
           @ drop (i + length samples) am \<and>
   pi' = take i pi @ map (\<lambda>s. padded_row (side = ''left'') ml 0 (arange dt (length (fst s)))) samples
           @ drop (i + length samples) pi"
proof (induction samples arbitrary: i pe lp am pi)
  case Nil
  then show ?case by simp
next
  case (Cons s samples)
  obtain e l where s: "s = (e, l)" by (cases s)
  from Cons.prems(1) s obtain st1 where
    st: "pad_step dt side h ml i e l (pe, lp, am, pi) = Inr st1" and
    lo: "pad_loop dt side h ml (Suc i) samples st1 = Inr (pe', lp', am', pi')"
    by (auto split: sum.splits)
  have i: "i < length lp" "i < length am" "i < length pi"
    using Cons.prems(2-4) by simp_all
  have fresh: "lp ! i = replicate ml ign" "am ! i = replicate ml False" "pi ! i = replicate ml 0"
    using Cons.prems(5-7) i by simp_all
  have el: "length l = length e" using Cons.prems(8) s by simp
  let ?left = "side = ''left''"
  let ?lp1 = "lp[i := padded_row ?left ml ign l]"
  let ?am1 = "am[i := padded_row ?left ml False (replicate (length e) True)]"
  let ?pi1 = "pi[i := padded_row ?left ml 0 (arange dt (length e))]"
  let ?pe1 = "pe @ [padded_row ?left ml (replicate h 0) e]"
  from pad_step_fresh[OF st i fresh el]
  have le: "length e \<le> ml" and st1: "st1 = (?pe1, ?lp1, ?am1, ?pi1)" by simp_all
  have lo': "pad_loop dt side h ml (Suc i) samples (?pe1, ?lp1, ?am1, ?pi1) = Inr (pe', lp', am', pi')"
    using lo st1 by simp
  have IH: "(\<forall>s \<in> set samples. length (fst s) \<le> ml) \<and>
     pe' = ?pe1 @ map (\<lambda>s. padded_row ?left ml (replicate h 0) (fst s)) samples \<and>
     lp' = take (Suc i) ?lp1 @ map (\<lambda>s. padded_row ?left ml ign (snd s)) samples
           @ drop (Suc i + length samples) ?lp1 \<and>
     am' = take (Suc i) ?am1 @ map (\<lambda>s. padded_row ?left ml False (replicate (length (fst s)) True)) samples
           @ drop (Suc i + length samples) ?am1 \<and>
     pi' = take (Suc i) ?pi1 @ map (\<lambda>s. padded_row ?left ml 0 (arange dt (length (fst s)))) samples
           @ drop (Suc i + length samples) ?pi1"
  proof (rule Cons.IH[OF lo'])
    show "Suc i + length samples \<le> length ?lp1" using Cons.prems(2) by simp
    show "Suc i + length samples \<le> length ?am1" using Cons.prems(3) by simp
    show "Suc i + length samples \<le> length ?pi1" using Cons.prems(4) by simp
    show "\<forall>j. Suc i \<le> j \<and> j < length ?lp1 \<longrightarrow> ?lp1 ! j = replicate ml ign"
      using Cons.prems(5) by simp
    show "\<forall>j. Suc i \<le> j \<and> j < length ?am1 \<longrightarrow> ?am1 ! j = replicate ml False"
      using Cons.prems(6) by simp
    show "\<forall>j. Suc i \<le> j \<and> j < length ?pi1 \<longrightarrow> ?pi1 ! j = replicate ml 0"
      using Cons.prems(7) by simp
    show "\<forall>s \<in> set samples. length (snd s) = length (fst s)"
      using Cons.prems(8) by simp
  qed
  show ?case
    using IH le s i by (simp add: take_Suc_update)
qed

lemma map_fst_zip_fun:
  "length xs = length ys \<Longrightarrow> map (\<lambda>s. f (fst s)) (zip xs ys) = map f xs"
  by (induction xs ys rule: list_induct2) simp_all

lemma map_snd_zip_fun:
  "length xs = length ys \<Longrightarrow> map (\<lambda>s. f (snd s)) (zip xs ys) = map f ys"
  by (induction xs ys rule: list_induct2) simp_all

lemma zip_same_lengths:
  "map length es = map length ls \<Longrightarrow> \<forall>s \<in> set (zip es ls). length (snd s) = length (fst s)"
proof (induction es arbitrary: ls)
  case Nil
  then show ?case by simp
next
  case (Cons e es)
  then obtain l ls' where "ls = l # ls'" by (cases ls) auto
  with Cons show ?case by auto
qed

lemma pad_batch_rows:
  assumes pb: "pad_batch dt side ign h es ls = Inr (pe, lp, am, pi)"
    and eq: "map length es = map length ls"
  shows "\<exists>max_len. py_max (map length es) = Inr max_len \<and>
           (\<forall>e \<in> set es. length e \<le> max_len) \<and>
           pe = map (padded_row (side = ''left'') max_len (replicate h 0)) es \<and>
           lp = map (padded_row (side = ''left'') max_len ign) ls \<and>
           am = map (\<lambda>e. padded_row (side = ''left'') max_len False (replicate (length e) True)) es \<and>
           pi = map (\<lambda>e. padded_row (side = ''left'') max_len 0 (arange dt (length e))) es"
proof -
  from pb obtain ml where ml: "py_max (map length es) = Inr ml" and
    lo: "pad_loop dt side h ml 0 (zip es ls)
           ([], replicate (length es) (replicate ml ign),
            replicate (length es) (replicate ml False),
            replicate (length es) (replicate ml 0)) = Inr (pe, lp, am, pi)"
    by (auto simp: pad_batch_def Let_def split: sum.splits)
  from eq have len: "length es = length ls" by (rule map_eq_imp_length_eq)
  have lz: "length (zip es ls) = length es" using len by simp
  let ?B = "length es"
  have r: "(\<forall>s \<in> set (zip es ls). length (fst s) \<le> ml) \<and>
    pe = [] @ map (\<lambda>s. padded_row (side = ''left'') ml (replicate h 0) (fst s)) (zip es ls) \<and>
    lp = take 0 (replicate ?B (replicate ml ign))
           @ map (\<lambda>s. padded_row (side = ''left'') ml ign (snd s)) (zip es ls)
           @ drop (0 + length (zip es ls)) (replicate ?B (replicate ml ign)) \<and>
    am = take 0 (replicate ?B (replicate ml False))
           @ map (\<lambda>s. padded_row (side = ''left'') ml False (replicate (length (fst s)) True)) (zip es ls)
           @ drop (0 + length (zip es ls)) (replicate ?B (replicate ml False)) \<and>
    pi = take 0 (replicate ?B (replicate ml 0))
           @ map (\<lambda>s. padded_row (side = ''left'') ml 0 (arange dt (length (fst s)))) (zip es ls)
           @ drop (0 + length (zip es ls)) (replicate ?B (replicate ml 0))"
  proof (rule pad_loop_fresh[OF lo])
    show "0 + length (zip es ls) \<le> length (replicate ?B (replicate ml ign))" using lz by simp
    show "0 + length (zip es ls) \<le> length (replicate ?B (replicate ml False))" using lz by simp
    show "0 + length (zip es ls) \<le> length (replicate ?B (replicate ml (0::int)))" using lz by simp
    show "\<forall>j. 0 \<le> j \<and> j < length (replicate ?B (replicate ml ign)) \<longrightarrow>
            replicate ?B (replicate ml ign) ! j = replicate ml ign" by simp
    show "\<forall>j. 0 \<le> j \<and> j < length (replicate ?B (replicate ml False)) \<longrightarrow>
            replicate ?B (replicate ml False) ! j = replicate ml False" by simp
    show "\<forall>j. 0 \<le> j \<and> j < length (replicate ?B (replicate ml (0::int))) \<longrightarrow>
            replicate ?B (replicate ml (0::int)) ! j = replicate ml 0" by simp
    show "\<forall>s \<in> set (zip es ls). length (snd s) = length (fst s)"
      using eq by (rule zip_same_lengths)
  qed
  have a: "\<forall>e \<in> set es. length e \<le> ml"
  proof
    fix e assume "e \<in> set es"
    then obtain k where k: "k < length es" "e = es ! k" by (metis in_set_conv_nth)
    then have "(es ! k, ls ! k) \<in> set (zip es ls)" using len by (auto simp: set_zip)
    with r k show "length e \<le> ml" by fastforce
  qed
  have b: "pe = map (padded_row (side = ''left'') ml (replicate h 0)) es"
    using r map_fst_zip_fun[OF len, of "padded_row (side = ''left'') ml (replicate h 0)"] by simp
  have c: "lp = map (padded_row (side = ''left'') ml ign) ls"
    using r lz map_snd_zip_fun[OF len, of "padded_row (side = ''left'') ml ign"] by simp
  have d: "am = map (\<lambda>e. padded_row (side = ''left'') ml False (replicate (length e) True)) es"
    using r lz map_fst_zip_fun[OF len,
        of "\<lambda>e. padded_row (side = ''left'') ml False (replicate (length e) True)"] by simp
  have e: "pi = map (\<lambda>e. padded_row (side = ''left'') ml 0 (arange dt (length e))) es"
    using r lz map_fst_zip_fun[OF len,
        of "\<lambda>e. padded_row (side = ''left'') ml 0 (arange dt (length e))"] by simp
  from ml a b c d e show ?thesis by blast
qed

lemma fuse_and_pad_rows:
  assumes "fuse_and_pad self dt feats input_ids attention_mask labels = Inr ((es, ls), (pe, lp, am, pi))"
  shows "map length es = map length ls \<and>
         (\<exists>max_len. py_max (map length es) = Inr max_len \<and>
           (\<forall>e \<in> set es. length e \<le> max_len) \<and>
           pe = map (padded_row (tokenizer_padding_side self = ''left'') max_len
                       (replicate (hidden_size self) 0)) es \<and>
           lp = map (padded_row (tokenizer_padding_side self = ''left'') max_len (IGNORE_INDEX self)) ls \<and>
           am = map (\<lambda>e. padded_row (tokenizer_padding_side self = ''left'') max_len False
                            (replicate (length e) True)) es \<and>
           pi = map (\<lambda>e. padded_row (tokenizer_padding_side self = ''left'') max_len 0
                            (arange dt (length e))) es)"
proof -
  from assms have fs: "fused_samples self feats input_ids attention_mask labels = Inr (es, ls)"
    and pb: "pad_batch dt (tokenizer_padding_side self) (IGNORE_INDEX self) (hidden_size self) es ls
              = Inr (pe, lp, am, pi)"
    by (auto simp: fuse_and_pad_def split: sum.splits)
  from fused_samples_lengths[OF fs] have eq: "map length es = map length ls" .
  from pad_batch_rows[OF pb eq] eq show ?thesis by simp
qed

lemma prepare_fusion_result:
  assumes "has_vision_tower self" and "images = Some imgs" and "shape1 input_ids \<noteq> 1"
    and "prepare_inputs_labels_for_multimodal self input_ids position_ids attention_mask
           past_key_values labels images
         = Inr (ids', pos', am', kv', emb', lab')"
  shows "\<exists>es ls pe lp m pi.
           fuse_and_pad self (case position_ids of None \<Rightarrow> Int64 | Some p \<Rightarrow> dtype p)
             (encode_images self imgs) (rows input_ids)
             (case attention_mask of
                None \<Rightarrow> full_like (rows input_ids) True
              | Some a \<Rightarrow> to_bool (rows a))
             (case labels of
                None \<Rightarrow> full_like (rows input_ids) (IGNORE_INDEX self)
              | Some l \<Rightarrow> rows l)
             = Inr ((es, ls), (pe, lp, m, pi))
           \<and> map_option rows emb' = Some pe
           \<and> (labels \<noteq> None \<longrightarrow> map_option rows lab' = Some lp)
           \<and> (attention_mask \<noteq> None \<longrightarrow> map_option rows am' = Some (of_bools m))
           \<and> (position_ids \<noteq> None \<longrightarrow> map_option rows pos' = Some pi)"
  using assms
  by (auto simp: prepare_inputs_labels_for_multimodal_def Let_def
           split: option.splits if_splits sum.splits prod.splits)

subsection \<open>The fusion returns on well-formed inputs\<close>

text \<open>
  When the batch is not empty, the rows of the token, mask and label tensors have the same
  lengths, and the encoder has produced a block for every sentinel token and one for
  every sample without any, the fusion returns a result.
\<close>

lemma depad_returns:
  "list_all2 (\<lambda>x m. length x = length m) xs ms \<Longrightarrow>
   \<exists>rs. depad xs ms = Inr rs \<and> length rs = length xs"
proof (induction xs ms rule: list_all2_induct)
  case Nil
  then show ?case by simp
next
  case (Cons x xs m ms)
  then obtain rs where "depad xs ms = Inr rs" "length rs = length xs" by blast
  with Cons.hyps(1) show ?case by (simp add: mask_select_def)
qed

lemma py_slice_length: "length (py_slice a b xs) = min (nat b - nat a) (length xs - nat a)"
  by (simp add: py_slice_def min.commute)

lemma noim_lengths:
  "length xs = length ys \<Longrightarrow> map length (noim idx xs) = map length (noim idx ys)"
  by (simp add: noim_def py_slice_length)

lemma length_noim: "length (noim idx xs) = length idx - 1"
  by (simp add: noim_def)

lemma length_filter_index:
  "length (filter (\<lambda>i. xs ! i = t) [0..<length xs]) = length (filter (\<lambda>x. x = t) xs)"
proof -
  have "filter (\<lambda>x. x = t) xs = filter (\<lambda>x. x = t) (map (\<lambda>i. xs ! i) [0..<length xs])"
    by (simp add: map_nth)
  also have "\<dots> = map (\<lambda>i. xs ! i) (filter (\<lambda>i. xs ! i = t) [0..<length xs])"
    by (simp add: filter_map o_def)
  finally show ?thesis by simp
qed

lemma length_image_token_indices:
  "length (image_token_indices tok ids) = num_images tok ids + 2"
  by (simp add: image_token_indices_def num_images_def length_filter_index)

lemma interleave_loop_returns:
  "(\<forall>i \<in> set is. i < length E \<and> i < length L) \<Longrightarrow>
   c + length (filter (\<lambda>i. i < n) is) \<le> length feats \<Longrightarrow>
   \<exists>st. interleave_loop ign feats E L n is (es, ls, c) = Inr st"
proof (induction "is" arbitrary: es ls c)
  case Nil
  then show ?case by simp
next
  case (Cons i "is")
  show ?case
  proof (cases "i < n")
    case True
    with Cons.prems have c: "c < length feats" and
      rest: "Suc c + length (filter (\<lambda>i. i < n) is) \<le> length feats" by simp_all
    have all: "\<forall>i \<in> set is. i < length E \<and> i < length L" using Cons.prems(1) by simp
    from Cons.IH[OF all rest] True c Cons.prems(1) show ?thesis
      by (simp add: interleave_step_def Let_def)
  next
    case False
    with Cons.prems have rest: "c + length (filter (\<lambda>i. i < n) is) \<le> length feats" by simp
    have all: "\<forall>i \<in> set is. i < length E \<and> i < length L" using Cons.prems(1) by simp
    from Cons.IH[OF all rest] False Cons.prems(1) show ?thesis
      by (simp add: interleave_step_def Let_def)
  qed
qed

lemma fuse_sample_returns:
  assumes b: "b < length labels" and len: "length (labels ! b) = length ids"
    and blocks: "c + max 1 (num_images tok ids) \<le> length feats"
  shows "\<exists>ne' nl'. fuse_sample tok ign emb feats labels b ids (ne, nl, c)
           = Inr (ne', nl', c + max 1 (num_images tok ids)) \<and> length ne' = Suc (length ne)"
proof (cases "num_images tok ids = 0")
  case True
  with b blocks show ?thesis
    by (simp add: fuse_sample_def Let_def)
next
  case False
  let ?n = "num_images tok ids"
  let ?idx = "image_token_indices tok ids"
  let ?L = "noim ?idx (labels ! b)"
  have sizes: "map length ?L = map length (noim ?idx ids)"
    using len by (rule noim_lengths)
  have "sum_list (map length ?L) = length (map emb (concat (noim ?idx ids)))"
    unfolding sizes by (simp add: length_concat)
  then have sp: "torch_split (map emb (concat (noim ?idx ids))) (map length ?L)
      = Inr (split_chunks (map emb (concat (noim ?idx ids))) (map length ?L))"
    by (simp add: torch_split_def)
  let ?E = "split_chunks (map emb (concat (noim ?idx ids))) (map length ?L)"
  have lenL: "length ?L = ?n + 1"
    by (simp add: length_noim length_image_token_indices)
  have "map length ?E = map length ?L"
    using torch_split_lengths[OF sp] .
  then have lenE: "length ?E = ?n + 1" using lenL by (metis length_map)
  have all: "\<forall>i \<in> set [0..<?n + 1]. i < length ?E \<and> i < length ?L"
    using lenE lenL by simp
  have cnt: "c + length (filter (\<lambda>i. i < ?n) [0..<?n + 1]) \<le> length feats"
    using blocks False by simp
  from interleave_loop_returns[OF all cnt, of ign "[]" "[]"] obtain es ls c' where
    il: "interleave_loop ign feats ?E ?L ?n [0..<?n + 1] ([], [], c) = Inr (es, ls, c')"
    by (metis prod_cases3)
  from interleave_loop_cursor[OF il] have "c' = c + ?n" by simp
  with il sp b False show ?thesis
    by (simp add: fuse_sample_def Let_def)
qed

lemma fuse_loop_returns:
  "(\<forall>k < length idss. b + k < length labels \<and> length (labels ! (b + k)) = length (idss ! k)) \<Longrightarrow>
   c + sum_list (map (\<lambda>ids. max 1 (num_images tok ids)) idss) \<le> length feats \<Longrightarrow>
   \<exists>ne' nl' c'. fuse_loop tok ign emb feats labels b idss (ne, nl, c) = Inr (ne', nl', c')
      \<and> length ne' = length ne + length idss"
proof (induction idss arbitrary: b ne nl c)
  case Nil
  then show ?case by simp
next
  case (Cons ids idss)
  have b: "b < length labels" and len: "length (labels ! b) = length ids"
    using Cons.prems(1)[rule_format, of 0] by simp_all
  have blocks: "c + max 1 (num_images tok ids) \<le> length feats"
    using Cons.prems(2) by simp
  from fuse_sample_returns[OF b len blocks, of ign emb ne nl] obtain ne1 nl1 where
    s: "fuse_sample tok ign emb feats labels b ids (ne, nl, c)
          = Inr (ne1, nl1, c + max 1 (num_images tok ids))" and
    l1: "length ne1 = Suc (length ne)"
    by blast
  have hs: "\<forall>k < length idss. Suc b + k < length labels \<and>
              length (labels ! (Suc b + k)) = length (idss ! k)"
  proof (intro allI impI)
    fix k assume "k < length idss"
    with Cons.prems(1)[rule_format, of "Suc k"]
    show "Suc b + k < length labels \<and> length (labels ! (Suc b + k)) = length (idss ! k)"
      by simp
  qed
  have rest: "c + max 1 (num_images tok ids)
      + sum_list (map (\<lambda>ids. max 1 (num_images tok ids)) idss) \<le> length feats"
    using Cons.prems(2) by simp
  from Cons.IH[OF hs rest, of ne1 nl1] s l1 show ?case by simp
qed

lemma fold_max_ge: "k \<le> fold max ns (k::nat)"
proof (induction ns arbitrary: k)
  case Nil
  then show ?case by simp
next
  case (Cons n ns)
  have "k \<le> max n k" by simp
  also have "\<dots> \<le> fold max ns (max n k)" by (rule Cons.IH)
  finally show ?case by simp
qed

lemma fold_max_upper: "n \<in> set ns \<Longrightarrow> n \<le> fold max ns (k::nat)"
proof (induction ns arbitrary: k)
  case Nil
  then show ?case by simp
next
  case (Cons m ns)
  show ?case
  proof (cases "n = m")
    case True
    have "m \<le> max m k" by simp
    also have "\<dots> \<le> fold max ns (max m k)" by (rule fold_max_ge)
    finally show ?thesis using True by simp
  next
    case False
    with Cons.prems have "n \<in> set ns" by simp
    from Cons.IH[OF this] show ?thesis by simp
  qed
qed

lemma py_max_upper: "py_max ns = Inr m \<Longrightarrow> n \<in> set ns \<Longrightarrow> n \<le> m"
  by (cases ns) (auto simp: py_max_def fold_max_ge fold_max_upper)

lemma pad_loop_returns:
  "i + length samples \<le> length lp \<Longrightarrow> i + length samples \<le> length am \<Longrightarrow>
   i + length samples \<le> length pi \<Longrightarrow>
   (\<forall>j. i \<le> j \<and> j < length lp \<longrightarrow> lp ! j = replicate ml ign) \<Longrightarrow>
   (\<forall>j. i \<le> j \<and> j < length am \<longrightarrow> am ! j = replicate ml False) \<Longrightarrow>
   (\<forall>j. i \<le> j \<and> j < length pi \<longrightarrow> pi ! j = replicate ml 0) \<Longrightarrow>
   (\<forall>s \<in> set samples. length (snd s) = length (fst s) \<and> length (fst s) \<le> ml) \<Longrightarrow>
   \<exists>st. pad_loop dt side h ml i samples (pe, lp, am, pi) = Inr st"
proof (induction samples arbitrary: i pe lp am pi)
  case Nil
  then show ?case by simp
next
  case (Cons s samples)
  obtain e l where s: "s = (e, l)" by (cases s)
  have i: "i < length lp" "i < length am" "i < length pi"
    using Cons.prems(1-3) by simp_all
  have fresh: "lp ! i = replicate ml ign" "am ! i = replicate ml False" "pi ! i = replicate ml 0"
    using Cons.prems(4-6) i by simp_all
  have el: "length l = length e" "length e \<le> ml" using Cons.prems(7) s by simp_all
  let ?left = "side = ''left''"
  let ?lp1 = "lp[i := padded_row ?left ml ign l]"
  let ?am1 = "am[i := padded_row ?left ml False (replicate (length e) True)]"
  let ?pi1 = "pi[i := padded_row ?left ml 0 (arange dt (length e))]"
  let ?pe1 = "pe @ [padded_row ?left ml (replicate h 0) e]"
  have st: "pad_step dt side h ml i e l (pe, lp, am, pi) = Inr (?pe1, ?lp1, ?am1, ?pi1)"
    by (rule pad_step_returns[OF i fresh el])
  have "\<exists>st. pad_loop dt side h ml (Suc i) samples (?pe1, ?lp1, ?am1, ?pi1) = Inr st"
  proof (rule Cons.IH)
    show "Suc i + length samples \<le> length ?lp1" using Cons.prems(1) by simp
    show "Suc i + length samples \<le> length ?am1" using Cons.prems(2) by simp
    show "Suc i + length samples \<le> length ?pi1" using Cons.prems(3) by simp
    show "\<forall>j. Suc i \<le> j \<and> j < length ?lp1 \<longrightarrow> ?lp1 ! j = replicate ml ign"
      using Cons.prems(4) by simp
    show "\<forall>j. Suc i \<le> j \<and> j < length ?am1 \<longrightarrow> ?am1 ! j = replicate ml False"
      using Cons.prems(5) by simp
    show "\<forall>j. Suc i \<le> j \<and> j < length ?pi1 \<longrightarrow> ?pi1 ! j = replicate ml 0"
      using Cons.prems(6) by simp
    show "\<forall>s \<in> set samples. length (snd s) = length (fst s) \<and> length (fst s) \<le> ml"
      using Cons.prems(7) by simp
  qed
  with st s show ?case by simp
qed

lemma pad_batch_returns:
  assumes "es \<noteq> []" and eq: "map length es = map length ls"
  shows "\<exists>st. pad_batch dt side ign h es ls = Inr st"
proof -
  from assms(1) obtain ml where ml: "py_max (map length es) = Inr ml"
    by (cases es) (auto simp: py_max_def)
  from eq have len: "length es = length ls" by (rule map_eq_imp_length_eq)
  have lz: "length (zip es ls) = length es" using len by simp
  have ok: "\<forall>s \<in> set (zip es ls). length (snd s) = length (fst s) \<and> length (fst s) \<le> ml"
  proof
    fix s assume s: "s \<in> set (zip es ls)"
    then have "fst s \<in> set es" by (metis in_set_zipE prod.collapse)
    then have "length (fst s) \<le> ml" using py_max_upper[OF ml] by simp
    with zip_same_lengths[OF eq] s
    show "length (snd s) = length (fst s) \<and> length (fst s) \<le> ml" by simp
  qed
  have "\<exists>st. pad_loop dt side h ml 0 (zip es ls)
           ([], replicate (length es) (replicate ml ign),
            replicate (length es) (replicate ml False),
            replicate (length es) (replicate ml 0)) = Inr st"
    by (rule pad_loop_returns[where ign = ign]) (use lz ok in simp_all)
  with ml show ?thesis by (simp add: pad_batch_def Let_def)
qed

lemma fuse_and_pad_returns:
  assumes "input_ids \<noteq> []"
    and ids: "list_all2 (\<lambda>x m. length x = length m) input_ids attention_mask"
    and labs: "list_all2 (\<lambda>x m. length x = length m) labels attention_mask"
    and blocks: "\<And>ids'. depad input_ids attention_mask = Inr ids' \<Longrightarrow>
       sum_list (map (\<lambda>ids. max 1 (num_images (IMAGE_TOKEN_INDEX self) ids)) ids') \<le> length feats"
  shows "\<exists>r. fuse_and_pad self dt feats input_ids attention_mask labels = Inr r"
proof -
  from depad_returns[OF ids] obtain I where I: "depad input_ids attention_mask = Inr I"
    and lI: "length I = length input_ids" by blast
  from depad_returns[OF labs] obtain L where L: "depad labels attention_mask = Inr L"
    and lL: "length L = length labels" by blast
  have n: "length labels = length input_ids"
    using ids labs by (simp add: list_all2_lengthD)
  have pre: "\<forall>k < length I. 0 + k < length L \<and> length (L ! (0 + k)) = length (I ! k)"
    using depad_same_mask[OF L I] lI lL n by simp
  have "0 + sum_list (map (\<lambda>ids. max 1 (num_images (IMAGE_TOKEN_INDEX self) ids)) I) \<le> length feats"
    using blocks[OF I] by simp
  from fuse_loop_returns[OF pre this, of "IGNORE_INDEX self" "get_input_embeddings self" "[]" "[]"]
  obtain ne nl c where
    fl: "fuse_loop (IMAGE_TOKEN_INDEX self) (IGNORE_INDEX self) (get_input_embeddings self)
           feats L 0 I ([], [], 0) = Inr (ne, nl, c)" and lne: "length ne = length I"
    by auto
  have fs: "fused_samples self feats input_ids attention_mask labels
      = Inr (truncate_samples (tokenizer_model_max_length self) ne,
             truncate_samples (tokenizer_model_max_length self) nl)"
    using I L fl by (simp add: fused_samples_def)
  have eq: "map length (truncate_samples (tokenizer_model_max_length self) ne)
      = map length (truncate_samples (tokenizer_model_max_length self) nl)"
    using fused_samples_lengths[OF fs] .
  have "length (truncate_samples (tokenizer_model_max_length self) ne) = length ne"
    by (simp add: truncate_samples_def split: option.splits)
  then have ne: "truncate_samples (tokenizer_model_max_length self) ne \<noteq> []"
    using lne lI assms(1) by auto
  from pad_batch_returns[OF ne eq, where side = "tokenizer_padding_side self"
      and ign = "IGNORE_INDEX self" and h = "hidden_size self" and dt = dt]
  obtain st where "pad_batch dt (tokenizer_padding_side self) (IGNORE_INDEX self) (hidden_size self)
      (truncate_samples (tokenizer_model_max_length self) ne)
      (truncate_samples (tokenizer_model_max_length self) nl) = Inr st"
    by blast
  with fs show ?thesis
    by (cases st) (simp add: fuse_and_pad_def)
qed

subsection \<open>The fusion on the example inputs\<close>

lemma example_fuse_and_pad:
  "fuse_and_pad example_model Int64 [[[1, 1], [2, 2]], [[3, 3], [4, 4]]]
     [[5, -200, 7], [9, 0, 0]] [[True, True, True], [True, False, False]]
     [[5, -200, 7], [9, 0, 0]]
   = Inr (([[[5, 5], [1, 1], [2, 2], [7, 7]], [[9, 9]]], [[5, - 100, - 100, 7], [9]]),
      [[[5, 5], [1, 1], [2, 2], [7, 7]], [[9, 9], [0, 0], [0, 0], [0, 0]]],
      [[5, - 100, - 100, 7], [9, - 100, - 100, - 100]],
      [[True, True, True, True], [True, False, False, False]],
      [[0, 1, 2, 3], [0, 0, 0, 0]])"
  by code_simp

lemma example_fuse_and_pad_left:
  "fuse_and_pad (example_model\<lparr>tokenizer_padding_side := ''left''\<rparr>) Int64
     [[[1, 1], [2, 2]], [[3, 3], [4, 4]]]
     [[5, -200, 7], [9, 0, 0]] [[True, True, True], [True, False, False]]
     [[5, -200, 7], [9, 0, 0]]
   = Inr (([[[5, 5], [1, 1], [2, 2], [7, 7]], [[9, 9]]], [[5, - 100, - 100, 7], [9]]),
      [[[5, 5], [1, 1], [2, 2], [7, 7]], [[0, 0], [0, 0], [0, 0], [9, 9]]],
      [[5, - 100, - 100, 7], [- 100, - 100, - 100, 9]],
      [[True, True, True, True], [False, False, False, True]],
      [[0, 1, 2, 3], [0, 0, 0, 0]])"
  by code_simp

lemma example_fuse_sample_image:
  "fuse_sample (- 200) (- 100) (\<lambda>t. [t, t]) [[[1, 1], [2, 2]]] [[5, - 100, 7]] 0
     [5, - 200, 7] ([], [], 0)
   = Inr ([[[5, 5], [1, 1], [2, 2], [7, 7]]], [[5, - 100, - 100, 7]], 1)"
  by code_simp

lemma example_fuse_sample_text:
  "fuse_sample (- 200) (- 100) (\<lambda>t. [t, t]) [[[1, 1], [2, 2]]] [[9]] 0 [9] ([], [], 0)
   = Inr ([[[9, 9]]], [[9]], 1)"
  by code_simp

lemma example_prepare_none:
  "prepare_inputs_labels_for_multimodal example_model
     \<lparr>shape1 = 3, rows = [[5, - 200, 7], [9, 8, - 200]]\<rparr> None None () None (Some ())
   = Inr (None, None, None, (),
          Some \<lparr>shape1 = 4, rows = [[[5, 5], [1, 1], [2, 2], [7, 7]], [[9, 9], [8, 8], [3, 3], [4, 4]]]\<rparr>,
          None)"
  by code_simp

lemma example_prepare_some:
  "prepare_inputs_labels_for_multimodal example_model
     \<lparr>shape1 = 3, rows = [[5, - 200, 7], [9, 0, 0]]\<rparr>
     (Some \<lparr>shape1 = 3, rows = [[0, 1, 2], [0, 1, 2]], dtype = Int64\<rparr>)
     (Some \<lparr>shape1 = 3, rows = [[1, 1, 1], [1, 0, 0]]\<rparr>) ()
     (Some \<lparr>shape1 = 3, rows = [[- 100, - 200, 7], [9, - 100, - 100]]\<rparr>) (Some ())
   = Inr (None,
          Some \<lparr>shape1 = 4, rows = [[0, 1, 2, 3], [0, 0, 0, 0]], dtype = Int64\<rparr>,
          Some \<lparr>shape1 = 4, rows = [[1, 1, 1, 1], [1, 0, 0, 0]]\<rparr>, (),
          Some \<lparr>shape1 = 4, rows = [[[5, 5], [1, 1], [2, 2], [7, 7]], [[9, 9], [0, 0], [0, 0], [0, 0]]]\<rparr>,
          Some \<lparr>shape1 = 4, rows = [[- 100, - 100, - 100, 7], [9, - 100, - 100, - 100]]\<rparr>)"
  by code_simp

subsection \<open>The second dimension of a batch\<close>

text \<open>
  For a batch with at least one sample, \<^verbatim>\<open>input_ids.shape[1] == 1\<close> says that every
  sample has exactly one token.
\<close>

lemma shape1_one_iff:
  assumes "well_formed t" and "rows t \<noteq> []"
  shows "shape1 t = 1 \<longleftrightarrow> list_all (\<lambda>r. length r = 1) (rows t)"
proof
  assume "shape1 t = 1"
  with assms(1) show "list_all (\<lambda>r. length r = 1) (rows t)"
    by (simp add: well_formed_def)
next
  assume a: "list_all (\<lambda>r. length r = 1) (rows t)"
  from assms(2) obtain r where r: "r \<in> set (rows t)" by (cases "rows t") auto
  with a have "length r = 1" by (simp add: list_all_iff)
  moreover from r assms(1) have "length r = shape1 t" by (simp add: well_formed_def list_all_iff)
  ultimately show "shape1 t = 1" by simp
qed

subsection \<open>A batch whose second sample is shorter than the first\<close>

lemma example_fuse_and_pad_short:
  "fuse_and_pad example_model Int64 [[[1, 1], [2, 2]], [[3, 3], [4, 4]]]
     [[5, -200, 7], [9, 8, 0]] [[True, True, True], [True, True, False]]
     [[5, -200, 7], [9, 8, 0]]
   = Inr (([[[5, 5], [1, 1], [2, 2], [7, 7]], [[9, 9], [8, 8]]], [[5, - 100, - 100, 7], [9, 8]]),
      [[[5, 5], [1, 1], [2, 2], [7, 7]], [[9, 9], [8, 8], [0, 0], [0, 0]]],
      [[5, - 100, - 100, 7], [9, 8, - 100, - 100]],
      [[True, True, True, True], [True, True, False, False]],
      [[0, 1, 2, 3], [0, 1, 0, 0]])"
  by code_simp

lemma example_fuse_and_pad_short_left:
  "fuse_and_pad (example_model\<lparr>tokenizer_padding_side := ''left''\<rparr>) Int8
     [[[1, 1], [2, 2]], [[3, 3], [4, 4]]]
     [[5, -200, 7], [9, 8, 0]] [[True, True, True], [True, True, False]]
     [[5, -200, 7], [9, 8, 0]]
   = Inr (([[[5, 5], [1, 1], [2, 2], [7, 7]], [[9, 9], [8, 8]]], [[5, - 100, - 100, 7], [9, 8]]),
      [[[5, 5], [1, 1], [2, 2], [7, 7]], [[0, 0], [0, 0], [9, 9], [8, 8]]],
      [[5, - 100, - 100, 7], [- 100, - 100, 9, 8]],
      [[True, True, True, True], [False, False, True, True]],
      [[0, 1, 2, 3], [0, 0, 0, 1]])"
  by code_simp

section \<open>Lemmas on the checkpoint loader\<close>

subsection \<open>Dictionaries\<close>

lemma map_of_dict_set: "map_of (dict_set k v d) = (map_of d)(k \<mapsto> v)"
  by (induction d) (auto simp: fun_eq_iff)

lemma keys_dict_set: "fst ` set (dict_set k v d) = insert k (fst ` set d)"
proof -
  have "fst ` set (dict_set k v d) = dom (map_of (dict_set k v d))"
    by (simp add: dom_map_of_conv_image_fst)
  also have "\<dots> = insert k (dom (map_of d))"
    by (simp add: map_of_dict_set)
  finally show ?thesis by (simp add: dom_map_of_conv_image_fst)
qed

lemma distinct_dict_set: "distinct (map fst d) \<Longrightarrow> distinct (map fst (dict_set k v d))"
proof (induction d)
  case Nil
  then show ?case by simp
next
  case (Cons a d)
  obtain k' v' where a: "a = (k', v')" by (cases a)
  show ?case
  proof (cases "k' = k")
    case True
    with Cons.prems a show ?thesis by simp
  next
    case False
    have "k' \<notin> fst ` set (dict_set k v d)"
      using False Cons.prems a by (simp add: keys_dict_set)
    with False Cons a show ?thesis by simp
  qed
qed

subsection \<open>Grouping the manifest by shard file\<close>

lemma group_by_file_distinct:
  "distinct (map fst acc) \<Longrightarrow> distinct (map fst (group_by_file wm acc))"
proof (induction wm arbitrary: acc)
  case Nil
  then show ?case by simp
next
  case (Cons a wm)
  obtain t f where a: "a = (t, f)" by (cases a)
  show ?case
    unfolding a using Cons.prems
    by (auto simp: Let_def split: option.splits intro!: Cons.IH distinct_dict_set)
qed

lemma group_by_file_lookup:
  "map_of (group_by_file wm acc) f =
     (if tensors_of wm f = [] then map_of acc f
      else Some ((case map_of acc f of None \<Rightarrow> [] | Some ns \<Rightarrow> ns) @ tensors_of wm f))"
proof (induction wm arbitrary: acc)
  case Nil
  then show ?case by (simp add: tensors_of_def)
next
  case (Cons a wm)
  obtain t0 f0 where a: "a = (t0, f0)" by (cases a)
  let ?acc1 = "(case map_of acc f0 of None \<Rightarrow> dict_set f0 [] acc | Some x \<Rightarrow> acc)"
  let ?names = "(case map_of ?acc1 f0 of None \<Rightarrow> [] | Some ns \<Rightarrow> ns)"
  let ?acc2 = "dict_set f0 (?names @ [t0]) ?acc1"
  have names: "?names = (case map_of acc f0 of None \<Rightarrow> [] | Some ns \<Rightarrow> ns)"
    by (simp add: map_of_dict_set split: option.splits)
  have acc2: "map_of ?acc2 = (map_of acc)(f0 \<mapsto> (case map_of acc f0 of None \<Rightarrow> [] | Some ns \<Rightarrow> ns) @ [t0])"
    unfolding names by (auto simp: map_of_dict_set fun_eq_iff split: option.splits)
  have step: "group_by_file (a # wm) acc = group_by_file wm ?acc2"
    unfolding a by (simp add: Let_def)
  show ?case
    unfolding step Cons.IH acc2
    by (auto simp: a tensors_of_def)
qed

lemma tensors_of_mem: "t \<in> set (tensors_of wm f) \<longleftrightarrow> (t, f) \<in> set wm"
  by (force simp: tensors_of_def)

lemma grouped_entry:
  assumes "e \<in> set (group_by_file wm [])"
  shows "snd e = tensors_of wm (fst e)"
proof -
  have "distinct (map fst (group_by_file wm []))" by (rule group_by_file_distinct) simp
  then have "map_of (group_by_file wm []) (fst e) = Some (snd e)"
    using assms by (metis map_of_eq_Some_iff prod.collapse)
  then show ?thesis
    by (simp add: group_by_file_lookup split: if_splits)
qed

lemma grouped_entry_exists:
  assumes "(t, f) \<in> set wm"
  shows "(f, tensors_of wm f) \<in> set (group_by_file wm [])"
proof -
  from assms have "tensors_of wm f \<noteq> []" using tensors_of_mem[of t wm f] by auto
  then have "map_of (group_by_file wm []) f = Some (tensors_of wm f)"
    by (simp add: group_by_file_lookup)
  then show ?thesis by (rule map_of_SomeD)
qed

subsection \<open>The merged dictionary\<close>

lemma copy_tensors_lookup:
  "map_of (fst (copy_tensors fp part names (full, out))) t =
     (if t \<in> set names \<and> map_of part t \<noteq> None then map_of part t else map_of full t)"
  by (induction names arbitrary: full out) (auto simp: map_of_dict_set split: option.splits)

lemma load_shards_lookup:
  "map_of (fst (load_shards fs p G (full, out))) t = fold (shard_value fs p t) G (map_of full t)"
proof (induction G arbitrary: full out)
  case Nil
  then show ?case by simp
next
  case (Cons a G)
  obtain f names where a: "a = (f, names)" by (cases a)
  show ?case
  proof (cases "isfile fs (path_join p f)")
    case True
    obtain full' out' where c: "copy_tensors (path_join p f) (load_file fs (path_join p f)) names
        (full, out @ [Print (''Loading part from '' @ path_join p f)]) = (full', out')"
      by (cases "copy_tensors (path_join p f) (load_file fs (path_join p f)) names
        (full, out @ [Print (''Loading part from '' @ path_join p f)])")
    have "map_of (fst (full', out')) t = shard_value fs p t (f, names) (map_of full t)"
      unfolding c[symmetric] copy_tensors_lookup shard_value_def using True by auto
    then have "map_of full' t = shard_value fs p t (f, names) (map_of full t)" by simp
    with True c Cons.IH[of full' out'] show ?thesis
      by (simp add: a Let_def)
  next
    case False
    with Cons.IH show ?thesis by (simp add: a Let_def shard_value_def)
  qed
qed

lemma fold_shard_value_same_file:
  assumes "\<forall>e \<in> set G. t \<in> set (snd e) \<longrightarrow> fst e = f"
  shows "fold (shard_value fs p t) G prev =
           (if (\<exists>e \<in> set G. t \<in> set (snd e)) \<and> isfile fs (path_join p f)
                \<and> map_of (load_file fs (path_join p f)) t \<noteq> None
            then map_of (load_file fs (path_join p f)) t else prev)"
  using assms
proof (induction G arbitrary: prev)
  case Nil
  then show ?case by simp
next
  case (Cons a G)
  then have IH: "\<And>prev. fold (shard_value fs p t) G prev =
           (if (\<exists>e \<in> set G. t \<in> set (snd e)) \<and> isfile fs (path_join p f)
                \<and> map_of (load_file fs (path_join p f)) t \<noteq> None
            then map_of (load_file fs (path_join p f)) t else prev)"
    by simp
  have a: "t \<in> set (snd a) \<longrightarrow> fst a = f" using Cons.prems by simp
  have hd: "shard_value fs p t a prev =
      (if t \<in> set (snd a) \<and> isfile fs (path_join p f)
            \<and> map_of (load_file fs (path_join p f)) t \<noteq> None
       then map_of (load_file fs (path_join p f)) t else prev)"
    using a by (auto simp: shard_value_def)
  have "fold (shard_value fs p t) (a # G) prev = fold (shard_value fs p t) G (shard_value fs p t a prev)"
    by simp
  also have "\<dots> = (if (\<exists>e \<in> set G. t \<in> set (snd e)) \<and> isfile fs (path_join p f)
                \<and> map_of (load_file fs (path_join p f)) t \<noteq> None
            then map_of (load_file fs (path_join p f)) t else shard_value fs p t a prev)"
    by (rule IH)
  also have "\<dots> = (if (\<exists>e \<in> set (a # G). t \<in> set (snd e)) \<and> isfile fs (path_join p f)
                \<and> map_of (load_file fs (path_join p f)) t \<noteq> None
            then map_of (load_file fs (path_join p f)) t else prev)"
    unfolding hd by auto
  finally show ?case .
qed

lemma merge_shards_lookup:
  assumes "distinct (map fst weight_map)"
  shows "map_of (fst (merge_shards fs p weight_map)) t =
           (case map_of weight_map t of
              None \<Rightarrow> None
            | Some file_name \<Rightarrow>
                if isfile fs (path_join p file_name)
                then map_of (load_file fs (path_join p file_name)) t else None)"
proof (cases "map_of weight_map t")
  case None
  have no: "\<forall>e \<in> set (group_by_file weight_map []). t \<in> set (snd e) \<longrightarrow> fst e = []"
  proof (intro ballI impI)
    fix e assume e: "e \<in> set (group_by_file weight_map [])" and t: "t \<in> set (snd e)"
    from grouped_entry[OF e] t have "(t, fst e) \<in> set weight_map" by (simp add: tensors_of_mem)
    then have "map_of weight_map t = Some (fst e)" using assms by simp
    with None show "fst e = []" by simp
  qed
  have none: "\<not> (\<exists>e \<in> set (group_by_file weight_map []). t \<in> set (snd e))"
  proof
    assume "\<exists>e \<in> set (group_by_file weight_map []). t \<in> set (snd e)"
    then obtain e where e: "e \<in> set (group_by_file weight_map [])" and t: "t \<in> set (snd e)" by blast
    from grouped_entry[OF e] t have "(t, fst e) \<in> set weight_map" by (simp add: tensors_of_mem)
    then have "map_of weight_map t = Some (fst e)" using assms by simp
    with None show False by simp
  qed
  show ?thesis
    unfolding merge_shards_def load_shards_lookup fold_shard_value_same_file[OF no]
    using none None by simp
next
  case (Some f)
  then have mem: "(t, f) \<in> set weight_map" by (rule map_of_SomeD)
  have same: "\<forall>e \<in> set (group_by_file weight_map []). t \<in> set (snd e) \<longrightarrow> fst e = f"
  proof (intro ballI impI)
    fix e assume e: "e \<in> set (group_by_file weight_map [])" and t: "t \<in> set (snd e)"
    from grouped_entry[OF e] t have "(t, fst e) \<in> set weight_map" by (simp add: tensors_of_mem)
    then have "map_of weight_map t = Some (fst e)" using assms by simp
    with Some show "fst e = f" by simp
  qed
  have ex: "\<exists>e \<in> set (group_by_file weight_map []). t \<in> set (snd e)"
    using grouped_entry_exists[OF mem] mem by (force simp: tensors_of_mem)
  show ?thesis
    unfolding merge_shards_def load_shards_lookup fold_shard_value_same_file[OF same]
    using ex Some by auto
qed

subsection \<open>The warnings\<close>

lemma copy_tensors_out_mono:
  "set out \<subseteq> set (snd (copy_tensors fp part names (full, out)))"
proof (induction names arbitrary: full out)
  case Nil
  then show ?case by simp
next
  case (Cons n names)
  show ?case
  proof (cases "map_of part n")
    case None
    with Cons.IH[of "out @ [Print (''Warning: Tensor '' @ n @ '' not found in '' @ fp)]" full]
    show ?thesis by auto
  next
    case (Some v)
    with Cons.IH[of out "dict_set n v full"] show ?thesis by simp
  qed
qed

lemma copy_tensors_warns:
  "t \<in> set names \<Longrightarrow> map_of part t = None \<Longrightarrow>
   Print (''Warning: Tensor '' @ t @ '' not found in '' @ fp)
     \<in> set (snd (copy_tensors fp part names (full, out)))"
proof (induction names arbitrary: full out)
  case Nil
  then show ?case by simp
next
  case (Cons n names)
  show ?case
  proof (cases "t = n")
    case True
    with Cons.prems
      copy_tensors_out_mono[of "out @ [Print (''Warning: Tensor '' @ n @ '' not found in '' @ fp)]"
        fp part names full]
    show ?thesis by auto
  next
    case False
    with Cons.prems have "t \<in> set names" by simp
    from Cons.IH[OF this Cons.prems(2)] show ?thesis
      by (cases "map_of part n") simp_all
  qed
qed

lemma load_shards_out_mono:
  "set out \<subseteq> set (snd (load_shards fs p G (full, out)))"
proof (induction G arbitrary: full out)
  case Nil
  then show ?case by simp
next
  case (Cons a G)
  obtain f names where a: "a = (f, names)" by (cases a)
  show ?case
  proof (cases "isfile fs (path_join p f)")
    case True
    obtain full' out' where c: "copy_tensors (path_join p f) (load_file fs (path_join p f)) names
        (full, out @ [Print (''Loading part from '' @ path_join p f)]) = (full', out')"
      by (cases "copy_tensors (path_join p f) (load_file fs (path_join p f)) names
        (full, out @ [Print (''Loading part from '' @ path_join p f)])")
    have "set out \<subseteq> set out'"
      using copy_tensors_out_mono[of "out @ [Print (''Loading part from '' @ path_join p f)]"
          "path_join p f" "load_file fs (path_join p f)" names full] c by auto
    with Cons.IH[of out' full'] True c show ?thesis by (auto simp: a Let_def)
  next
    case False
    with Cons.IH[of "out @ [Print (''Warning: Expected safetensors file '' @ path_join p f @ '' not found.'')]" full]
    show ?thesis by (auto simp: a Let_def)
  qed
qed

lemma load_shards_Cons_ex:
  "\<exists>full' out'. load_shards fs p (a # G) (full, out) = load_shards fs p G (full', out')"
proof -
  obtain f names where a: "a = (f, names)" by (cases a)
  show ?thesis
  proof (cases "isfile fs (path_join p f)")
    case True
    then have "load_shards fs p (a # G) (full, out) =
      load_shards fs p G (copy_tensors (path_join p f) (load_file fs (path_join p f)) names
        (full, out @ [Print (''Loading part from '' @ path_join p f)]))"
      by (simp add: a Let_def)
    then show ?thesis by (metis surj_pair)
  next
    case False
    then have "load_shards fs p (a # G) (full, out) =
      load_shards fs p G (full,
        out @ [Print (''Warning: Expected safetensors file '' @ path_join p f @ '' not found.'')])"
      by (simp add: a Let_def)
    then show ?thesis by blast
  qed
qed

lemma load_shards_warns_file:
  "(f, names) \<in> set G \<Longrightarrow> \<not> isfile fs (path_join p f) \<Longrightarrow>
   Print (''Warning: Expected safetensors file '' @ path_join p f @ '' not found.'')
     \<in> set (snd (load_shards fs p G (full, out)))"
proof (induction G arbitrary: full out)
  case Nil
  then show ?case by simp
next
  case (Cons a G)
  show ?case
  proof (cases "a = (f, names)")
    case True
    with Cons.prems(2)
      load_shards_out_mono[of "out @ [Print (''Warning: Expected safetensors file '' @ path_join p f @ '' not found.'')]"
        fs p G full]
    show ?thesis by (auto simp: Let_def)
  next
    case False
    with Cons.prems have m: "(f, names) \<in> set G" by simp
    obtain f' names' where a: "a = (f', names')" by (cases a)
    obtain full' out' where st: "load_shards fs p (a # G) (full, out) = load_shards fs p G (full', out')"
      using load_shards_Cons_ex[of fs p a G full out] by auto
    with Cons.IH[OF m Cons.prems(2), of full' out'] show ?thesis by simp
  qed
qed

lemma load_shards_warns_tensor:
  "(f, names) \<in> set G \<Longrightarrow> t \<in> set names \<Longrightarrow> isfile fs (path_join p f) \<Longrightarrow>
   map_of (load_file fs (path_join p f)) t = None \<Longrightarrow>
   Print (''Warning: Tensor '' @ t @ '' not found in '' @ path_join p f)
     \<in> set (snd (load_shards fs p G (full, out)))"
proof (induction G arbitrary: full out)
  case Nil
  then show ?case by simp
next
  case (Cons a G)
  show ?case
  proof (cases "a = (f, names)")
    case True
    obtain full' out' where c: "copy_tensors (path_join p f) (load_file fs (path_join p f)) names
        (full, out @ [Print (''Loading part from '' @ path_join p f)]) = (full', out')"
      by (cases "copy_tensors (path_join p f) (load_file fs (path_join p f)) names
        (full, out @ [Print (''Loading part from '' @ path_join p f)])")
    have "Print (''Warning: Tensor '' @ t @ '' not found in '' @ path_join p f) \<in> set out'"
      using copy_tensors_warns[OF Cons.prems(2,4), of "path_join p f" full
          "out @ [Print (''Loading part from '' @ path_join p f)]"] c by simp
    with load_shards_out_mono[of out' fs p G full'] True Cons.prems(3) c
    show ?thesis by (auto simp: Let_def)
  next
    case False
    with Cons.prems have m: "(f, names) \<in> set G" by simp
    obtain f' names' where a: "a = (f', names')" by (cases a)
    obtain full' out' where st: "load_shards fs p (a # G) (full, out) = load_shards fs p G (full', out')"
      using load_shards_Cons_ex[of fs p a G full out] by auto
    with Cons.IH[OF m Cons.prems(2,3,4), of full' out'] show ?thesis by simp
  qed
qed

lemma merge_shards_warns_file:
  assumes "map_of weight_map t = Some f" and "\<not> isfile fs (path_join p f)"
  shows "Print (''Warning: Expected safetensors file '' @ path_join p f @ '' not found.'')
           \<in> set (snd (merge_shards fs p weight_map))"
proof -
  from assms(1) have "(t, f) \<in> set weight_map" by (rule map_of_SomeD)
  from load_shards_warns_file[OF grouped_entry_exists[OF this] assms(2)]
  show ?thesis by (simp add: merge_shards_def)
qed

lemma merge_shards_warns_tensor:
  assumes "map_of weight_map t = Some f" and "isfile fs (path_join p f)"
    and "map_of (load_file fs (path_join p f)) t = None"
  shows "Print (''Warning: Tensor '' @ t @ '' not found in '' @ path_join p f)
           \<in> set (snd (merge_shards fs p weight_map))"
proof -
  from assms(1) have mem: "(t, f) \<in> set weight_map" by (rule map_of_SomeD)
  then have "t \<in> set (tensors_of weight_map f)" by (simp add: tensors_of_mem)
  from load_shards_warns_tensor[OF grouped_entry_exists[OF mem] this assms(2,3)]
  show ?thesis by (simp add: merge_shards_def)
qed

subsection \<open>The assignment to \<^verbatim>\<open>full_state_dict\<close>\<close>

lemma resolve_checkpoint_index:
  assumes "\<not> (isfile fs p \<and> endswith p ''.safetensors'')" and "isdir fs p"
    and "\<not> isfile fs (path_join p ''model.safetensors'')"
    and "isfile fs (path_join p ''model.safetensors.index.json'')"
    and "json_weight_map fs (path_join p ''model.safetensors.index.json'') = Some weight_map"
  shows "fst (resolve_checkpoint fs p) = Assigned (Some (fst (merge_shards fs p weight_map)))"
  using assms by (auto simp: resolve_checkpoint_def Let_def split: prod.splits)

lemma resolve_checkpoint_never_None: "fst (resolve_checkpoint fs p) \<noteq> Assigned None"
  by (simp add: resolve_checkpoint_def Let_def split: option.splits prod.splits)

lemma resolve_checkpoint_unassigned:
  assumes "\<not> (isfile fs p \<and> endswith p ''.safetensors'')"
    and "isdir fs p \<longrightarrow> \<not> isfile fs (path_join p ''model.safetensors'')
           \<and> \<not> isfile fs (path_join p ''model.safetensors.index.json'')"
  shows "resolve_checkpoint fs p = (Unassigned, [])"
  using assms by (auto simp: resolve_checkpoint_def Let_def)

subsection \<open>The loader on the example inputs\<close>

lemma example_merge:
  "merge_shards example_fs ''/ckpt'' example_weight_map =
     ([(''w1'', 11)],
      [Print ''Loading part from /ckpt/shard1.bin'',
       Print ''Warning: Tensor w3 not found in /ckpt/shard1.bin'',
       Print ''Warning: Expected safetensors file /ckpt/shard2.bin not found.''])"
  by code_simp

lemma example_resolve:
  "fst (resolve_checkpoint example_fs ''/ckpt'') = Assigned (Some [(''w1'', 11)])"
  by code_simp

lemma example_load_state_dict:
  "load_state_dict example_methods (language_model example_composed)
     (route ''language_model.'' 15 example_checkpoint []) False = Inr [''w'']"
  "load_state_dict example_methods (vision_tower example_composed)
     (route ''vision_tower.'' 13 example_checkpoint_full []) True = Inr [''w'', ''b'']"
  "load_state_dict example_methods (vision_tower example_composed)
     (route ''vision_tower.'' 13 example_checkpoint []) True = Inl RuntimeError"
  "load_state_dict example_methods (connector example_composed)
     (route ''connector.'' 10 example_checkpoint_full []) True = Inr [''w'', ''b'']"
  "load_state_dict example_methods (connector example_composed)
     (route ''connector.'' 10 example_checkpoint []) True = Inl RuntimeError"
  "load_state_dict example_methods (connector example_composed)
     (route ''connector.'' 10 example_checkpoint []) False = Inr [''w'', ''b'']"
  by code_simp+

lemma example_agree:
  "\<forall>c sd. load_state_dict example_methods c sd False
            = load_state_dict example_methods_lenient c sd False"
  "\<forall>c sd. load_state_dict example_methods c sd True
            = load_state_dict example_methods_rigid c sd True"
  by (simp_all add: example_methods_def example_methods_lenient_def example_methods_rigid_def)

lemma example_load_state_dict_raises:
  "load_state_dict example_methods_broken (language_model example_composed)
     (route ''language_model.'' 15 example_checkpoint []) False = Inl TypeError"
  "load_state_dict example_methods_broken (vision_tower example_composed)
     (route ''vision_tower.'' 13 example_checkpoint []) True = Inl TypeError"
  "load_state_dict example_methods_broken (connector example_composed)
     (route ''connector.'' 10 example_checkpoint []) True = Inl TypeError"
  "load_state_dict example_methods_rigid (connector example_composed)
     (route ''connector.'' 10 example_checkpoint []) True = Inl RuntimeError"
  "load_state_dict example_methods_rigid (connector example_composed)
     (route ''connector.'' 10 example_checkpoint []) False = Inl OtherError"
  "is_RuntimeError RuntimeError" "\<not> is_RuntimeError TypeError"
  by code_simp+

section \<open>Properties of the fusion\<close>

text \<open>
  Claim C1 (length invariant). Whenever the fusion produces its fused samples \<open>es\<close>
  (embeddings) and \<open>ls\<close> (labels) and the padded tensors \<open>pe\<close> and \<open>lp\<close>, every
  sample has as many embedding vectors as labels before padding, and after padding every
  row of the embedding tensor and of the label tensor has length \<open>max_len\<close>, the
  maximum of the fused lengths.
\<close>

theorem fusion_length_invariant:
  assumes "fuse_and_pad self dt feats input_ids attention_mask labels = Inr ((es, ls), (pe, lp, am, pi))"
  shows "length ls = length es \<and> length pe = length es \<and> length lp = length es \<and>
         (\<exists>max_len. py_max (map length es) = Inr max_len \<and>
            (\<forall>i < length es. length (es ! i) = length (ls ! i) \<and>
                              length (pe ! i) = max_len \<and> length (lp ! i) = max_len))"
proof -
  from fuse_and_pad_rows[OF assms] obtain max_len where
    eq: "map length es = map length ls" and
    ml: "py_max (map length es) = Inr max_len" and
    le: "\<forall>e \<in> set es. length e \<le> max_len" and
    pe: "pe = map (padded_row (tokenizer_padding_side self = ''left'') max_len
                       (replicate (hidden_size self) 0)) es" and
    lp: "lp = map (padded_row (tokenizer_padding_side self = ''left'') max_len (IGNORE_INDEX self)) ls"
    by blast
  from eq have len: "length ls = length es" by (metis length_map)
  have "\<forall>i < length es. length (es ! i) = length (ls ! i) \<and>
          length (pe ! i) = max_len \<and> length (lp ! i) = max_len"
  proof (intro allI impI)
    fix i assume i: "i < length es"
    then have a: "length (es ! i) = length (ls ! i)" using eq len by (metis nth_map)
    have b: "length (es ! i) \<le> max_len" using le i by simp
    from a b i len show "length (es ! i) = length (ls ! i) \<and>
          length (pe ! i) = max_len \<and> length (lp ! i) = max_len"
      by (simp add: pe lp padded_row_length)
  qed
  with ml len show ?thesis by (auto simp: pe lp)
qed

theorem fusion_length_invariant_witness:
  "fuse_and_pad example_model Int64 [[[1, 1], [2, 2]], [[3, 3], [4, 4]]]
     [[5, -200, 7], [9, 0, 0]] [[True, True, True], [True, False, False]]
     [[5, -200, 7], [9, 0, 0]]
   = Inr (([[[5, 5], [1, 1], [2, 2], [7, 7]], [[9, 9]]], [[5, - 100, - 100, 7], [9]]),
      [[[5, 5], [1, 1], [2, 2], [7, 7]], [[9, 9], [0, 0], [0, 0], [0, 0]]],
      [[5, - 100, - 100, 7], [9, - 100, - 100, - 100]],
      [[True, True, True, True], [True, False, False, False]],
      [[0, 1, 2, 3], [0, 0, 0, 0]])
   \<and> (length [[5, - 100, - 100, 7], [9::int]] = length [[[5, 5], [1, 1], [2, 2], [7, 7]], [[9, 9::int]]]
      \<and> length [[[5, 5], [1, 1], [2, 2], [7, 7]], [[9, 9], [0, 0], [0, 0], [0, 0::int]]] = length [[[5, 5], [1, 1], [2, 2], [7, 7]], [[9, 9::int]]]
      \<and> length [[5, - 100, - 100, 7], [9, - 100, - 100, - 100::int]] = length [[[5, 5], [1, 1], [2, 2], [7, 7]], [[9, 9::int]]]
      \<and> (\<exists>max_len. py_max (map length [[[5, 5], [1, 1], [2, 2], [7, 7]], [[9, 9::int]]]) = Inr max_len \<and>
           (\<forall>i < length [[[5, 5], [1, 1], [2, 2], [7, 7]], [[9, 9::int]]].
              length ([[[5, 5], [1, 1], [2, 2], [7, 7]], [[9, 9::int]]] ! i) = length ([[5, - 100, - 100, 7], [9::int]] ! i) \<and>
              length ([[[5, 5], [1, 1], [2, 2], [7, 7]], [[9, 9], [0, 0], [0, 0], [0, 0::int]]] ! i) = max_len \<and>
              length ([[5, - 100, - 100, 7], [9, - 100, - 100, - 100::int]] ! i) = max_len)))"
  by (rule conjI [OF example_fuse_and_pad fusion_length_invariant [OF example_fuse_and_pad]])

text \<open>
  Claim C2 (padding correctness). After the padding step, the row of a sample of fused
  length \<open>cur_len\<close> is, under right-padding (any side other than \<open>''left''\<close>), the
  unpadded sample followed by \<open>max_len - cur_len\<close> padding entries, and under left-padding
  the same padding entries followed by the unpadded sample. The padding entries are the
  zero vector for the embeddings, the ignore label for the labels and \<open>False\<close> for the
  attention mask, whose other entries are \<open>True\<close>.
\<close>

theorem fusion_padding_correct:
  assumes "fuse_and_pad self dt feats input_ids attention_mask labels = Inr ((es, ls), (pe, lp, am, pi))"
    and "py_max (map length es) = Inr max_len"
    and "i < length es"
    and "cur_len = length (es ! i)"
  shows "(tokenizer_padding_side self \<noteq> ''left'' \<longrightarrow>
            pe ! i = es ! i @ replicate (max_len - cur_len) (replicate (hidden_size self) 0) \<and>
            lp ! i = ls ! i @ replicate (max_len - cur_len) (IGNORE_INDEX self) \<and>
            am ! i = replicate cur_len True @ replicate (max_len - cur_len) False) \<and>
         (tokenizer_padding_side self = ''left'' \<longrightarrow>
            pe ! i = replicate (max_len - cur_len) (replicate (hidden_size self) 0) @ es ! i \<and>
            lp ! i = replicate (max_len - cur_len) (IGNORE_INDEX self) @ ls ! i \<and>
            am ! i = replicate (max_len - cur_len) False @ replicate cur_len True) \<and>
         length (ls ! i) = cur_len \<and> cur_len \<le> max_len"
proof -
  from fuse_and_pad_rows[OF assms(1)] assms(2) have
    eq: "map length es = map length ls" and
    le: "\<forall>e \<in> set es. length e \<le> max_len" and
    pe: "pe = map (padded_row (tokenizer_padding_side self = ''left'') max_len
                       (replicate (hidden_size self) 0)) es" and
    lp: "lp = map (padded_row (tokenizer_padding_side self = ''left'') max_len (IGNORE_INDEX self)) ls" and
    am: "am = map (\<lambda>e. padded_row (tokenizer_padding_side self = ''left'') max_len False
                            (replicate (length e) True)) es"
    by auto
  from eq have len: "length ls = length es" by (metis length_map)
  have a: "length (ls ! i) = cur_len" using eq len assms(3,4) by (metis nth_map)
  have b: "cur_len \<le> max_len" using le assms(3,4) by simp
  from a b len assms(3,4) show ?thesis
    by (simp add: pe lp am padded_row_def)
qed

theorem fusion_padding_correct_witness:
  "fuse_and_pad example_model Int64 [[[1, 1], [2, 2]], [[3, 3], [4, 4]]]
     [[5, -200, 7], [9, 0, 0]] [[True, True, True], [True, False, False]]
     [[5, -200, 7], [9, 0, 0]]
   = Inr (([[[5, 5], [1, 1], [2, 2], [7, 7]], [[9, 9]]], [[5, - 100, - 100, 7], [9]]),
      [[[5, 5], [1, 1], [2, 2], [7, 7]], [[9, 9], [0, 0], [0, 0], [0, 0]]],
      [[5, - 100, - 100, 7], [9, - 100, - 100, - 100]],
      [[True, True, True, True], [True, False, False, False]],
      [[0, 1, 2, 3], [0, 0, 0, 0]])
   \<and> py_max (map length [[[5, 5], [1, 1], [2, 2], [7, 7]], [[9, 9::int]]]) = Inr 4
   \<and> (1::nat) < length [[[5, 5], [1, 1], [2, 2], [7, 7]], [[9, 9::int]]]
   \<and> [[[5, 5], [1, 1], [2, 2], [7, 7]], [[9, 9], [0, 0], [0, 0], [0, 0::int]]] ! 1
       = [[9, 9]] @ replicate (4 - 1) (replicate 2 0)
   \<and> [[5, - 100, - 100, 7], [9, - 100, - 100, - 100::int]] ! 1 = [9] @ replicate (4 - 1) (- 100)
   \<and> [[True, True, True, True], [True, False, False, False]] ! 1
       = replicate 1 True @ replicate (4 - 1) False
   \<and> fuse_and_pad (example_model\<lparr>tokenizer_padding_side := ''left''\<rparr>) Int64
       [[[1, 1], [2, 2]], [[3, 3], [4, 4]]]
       [[5, -200, 7], [9, 0, 0]] [[True, True, True], [True, False, False]]
       [[5, -200, 7], [9, 0, 0]]
   = Inr (([[[5, 5], [1, 1], [2, 2], [7, 7]], [[9, 9]]], [[5, - 100, - 100, 7], [9]]),
      [[[5, 5], [1, 1], [2, 2], [7, 7]], [[0, 0], [0, 0], [0, 0], [9, 9]]],
      [[5, - 100, - 100, 7], [- 100, - 100, - 100, 9]],
      [[True, True, True, True], [False, False, False, True]],
      [[0, 1, 2, 3], [0, 0, 0, 0]])
   \<and> [[[5, 5], [1, 1], [2, 2], [7, 7]], [[0, 0], [0, 0], [0, 0], [9, 9::int]]] ! 1
       = replicate (4 - 1) (replicate 2 0) @ [[9, 9]]
   \<and> [[5, - 100, - 100, 7], [- 100, - 100, - 100, 9::int]] ! 1 = replicate (4 - 1) (- 100) @ [9]
   \<and> [[True, True, True, True], [False, False, False, True]] ! 1
       = replicate (4 - 1) False @ replicate 1 True"
proof -
  have m: "py_max (map length [[[5, 5], [1, 1], [2, 2], [7, 7]], [[9, 9::int]]]) = Inr 4"
    by (simp add: py_max_def)
  have i: "(1::nat) < length [[[5, 5], [1, 1], [2, 2], [7, 7]], [[9, 9::int]]]" by simp
  have c: "(1::nat) = length ([[[5, 5], [1, 1], [2, 2], [7, 7]], [[9, 9::int]]] ! 1)" by simp
  have r: "tokenizer_padding_side example_model \<noteq> ''left''"
    by (simp add: example_model_def)
  have l: "tokenizer_padding_side (example_model\<lparr>tokenizer_padding_side := ''left''\<rparr>) = ''left''"
    by simp
  have h: "hidden_size example_model = 2" "IGNORE_INDEX example_model = - 100"
    by (simp_all add: example_model_def)
  from fusion_padding_correct [OF example_fuse_and_pad m i c]
       fusion_padding_correct [OF example_fuse_and_pad_left m i c]
       example_fuse_and_pad example_fuse_and_pad_left m i r l h
  show ?thesis by simp
qed

text \<open>
  Claim C3 (position ids restart), as the specification states it: over the non-padded
  span of every sample the position ids are \<open>0, 1, \<dots>, cur_len - 1\<close>. The code builds
  them with \<^verbatim>\<open>torch.arange(0, cur_len, dtype=position_ids.dtype)\<close>, in the dtype of the
  caller's position ids. For a caller whose position ids are of dtype \<^verbatim>\<open>int8\<close> and a
  sample of 130 tokens, the ids returned are \<open>0, \<dots>, 127, -128, -127\<close>.
\<close>

theorem position_ids_restart_counterexample:
  "prepare_inputs_labels_for_multimodal example_model
     \<lparr>shape1 = 130, rows = [replicate 130 7]\<rparr>
     (Some \<lparr>shape1 = 130, rows = [replicate 130 0], dtype = Int8\<rparr>) None () None (Some ())
   = Inr (None,
          Some \<lparr>shape1 = 130, rows = [map int [0..<128] @ [- 128, - 127]], dtype = Int8\<rparr>,
          None, (),
          Some \<lparr>shape1 = 130, rows = [replicate 130 [7, 7]]\<rparr>,
          None)
   \<and> map int [0..<128] @ [- 128, - 127] \<noteq> map int [0..<130]"
  by code_simp

text \<open>
  Claim C3, amended. In the position-id tensor built by the padding step, the entries
  over the non-padded span of a sample of fused length \<open>cur_len\<close> (its first \<open>cur_len\<close>
  positions under right-padding, its last \<open>cur_len\<close> positions under left-padding, where
  the attention mask is \<open>True\<close>) are \<open>0, 1, \<dots>, cur_len - 1\<close> converted to the dtype
  \<open>dt\<close> of the position ids, which is the caller's or \<^verbatim>\<open>torch.long\<close>. They are
  \<open>0, 1, \<dots>, cur_len - 1\<close> themselves whenever \<open>cur_len - 1\<close> is a value of that
  dtype.
\<close>

theorem position_ids_restart:
  assumes "fuse_and_pad self dt feats input_ids attention_mask labels = Inr ((es, ls), (pe, lp, am, pi))"
    and "py_max (map length es) = Inr max_len"
    and "i < length es"
    and "cur_len = length (es ! i)"
  shows "length (pi ! i) = max_len \<and> cur_len \<le> max_len \<and>
         (tokenizer_padding_side self \<noteq> ''left'' \<longrightarrow>
            take cur_len (pi ! i) = map (\<lambda>k. to_dtype dt (int k)) [0..<cur_len] \<and>
            take cur_len (am ! i) = replicate cur_len True) \<and>
         (tokenizer_padding_side self = ''left'' \<longrightarrow>
            drop (max_len - cur_len) (pi ! i) = map (\<lambda>k. to_dtype dt (int k)) [0..<cur_len] \<and>
            drop (max_len - cur_len) (am ! i) = replicate cur_len True) \<and>
         (int cur_len \<le> dtype_max dt + 1 \<longrightarrow>
            (tokenizer_padding_side self \<noteq> ''left'' \<longrightarrow>
               take cur_len (pi ! i) = map int [0..<cur_len]) \<and>
            (tokenizer_padding_side self = ''left'' \<longrightarrow>
               drop (max_len - cur_len) (pi ! i) = map int [0..<cur_len]))"
proof -
  from fuse_and_pad_rows[OF assms(1)] assms(2) have
    le: "\<forall>e \<in> set es. length e \<le> max_len" and
    am: "am = map (\<lambda>e. padded_row (tokenizer_padding_side self = ''left'') max_len False
                            (replicate (length e) True)) es" and
    pi: "pi = map (\<lambda>e. padded_row (tokenizer_padding_side self = ''left'') max_len 0
                            (arange dt (length e))) es"
    by auto
  have b: "cur_len \<le> max_len" using le assms(3,4) by simp
  have row: "pi ! i = padded_row (tokenizer_padding_side self = ''left'') max_len 0 (arange dt cur_len)"
    using assms(3,4) by (simp add: pi)
  have mrow: "am ! i = padded_row (tokenizer_padding_side self = ''left'') max_len False
                         (replicate cur_len True)"
    using assms(3,4) by (simp add: am)
  have len: "length (arange dt cur_len) = cur_len" by (simp add: arange_def)
  have wrapped: "(tokenizer_padding_side self \<noteq> ''left'' \<longrightarrow>
            take cur_len (pi ! i) = arange dt cur_len \<and>
            take cur_len (am ! i) = replicate cur_len True) \<and>
         (tokenizer_padding_side self = ''left'' \<longrightarrow>
            drop (max_len - cur_len) (pi ! i) = arange dt cur_len \<and>
            drop (max_len - cur_len) (am ! i) = replicate cur_len True)"
    using b len by (simp add: row mrow padded_row_def)
  have size: "length (pi ! i) = max_len"
    using b len by (simp add: row padded_row_def)
  have exact: "int cur_len \<le> dtype_max dt + 1 \<longrightarrow> arange dt cur_len = map int [0..<cur_len]"
    using arange_in_range by blast
  from wrapped size b exact show ?thesis
    by (auto simp: arange_def)
qed

theorem position_ids_restart_witness:
  "fuse_and_pad example_model Int64 [[[1, 1], [2, 2]], [[3, 3], [4, 4]]]
     [[5, -200, 7], [9, 8, 0]] [[True, True, True], [True, True, False]]
     [[5, -200, 7], [9, 8, 0]]
   = Inr (([[[5, 5], [1, 1], [2, 2], [7, 7]], [[9, 9], [8, 8]]], [[5, - 100, - 100, 7], [9, 8]]),
      [[[5, 5], [1, 1], [2, 2], [7, 7]], [[9, 9], [8, 8], [0, 0], [0, 0]]],
      [[5, - 100, - 100, 7], [9, 8, - 100, - 100]],
      [[True, True, True, True], [True, True, False, False]],
      [[0, 1, 2, 3], [0, 1, 0, 0]])
   \<and> py_max (map length [[[5, 5], [1, 1], [2, 2], [7, 7]], [[9, 9], [8, 8::int]]]) = Inr 4
   \<and> (1::nat) < length [[[5, 5], [1, 1], [2, 2], [7, 7]], [[9, 9], [8, 8::int]]]
   \<and> int 2 \<le> dtype_max Int64 + 1
   \<and> take 2 ([[0, 1, 2, 3], [0, 1, 0, 0::int]] ! 1) = map int [0..<2]
   \<and> fuse_and_pad (example_model\<lparr>tokenizer_padding_side := ''left''\<rparr>) Int8
       [[[1, 1], [2, 2]], [[3, 3], [4, 4]]]
       [[5, -200, 7], [9, 8, 0]] [[True, True, True], [True, True, False]]
       [[5, -200, 7], [9, 8, 0]]
   = Inr (([[[5, 5], [1, 1], [2, 2], [7, 7]], [[9, 9], [8, 8]]], [[5, - 100, - 100, 7], [9, 8]]),
      [[[5, 5], [1, 1], [2, 2], [7, 7]], [[0, 0], [0, 0], [9, 9], [8, 8]]],
      [[5, - 100, - 100, 7], [- 100, - 100, 9, 8]],
      [[True, True, True, True], [False, False, True, True]],
      [[0, 1, 2, 3], [0, 0, 0, 1]])
   \<and> int 2 \<le> dtype_max Int8 + 1
   \<and> drop (4 - 2) ([[0, 1, 2, 3], [0, 0, 0, 1::int]] ! 1) = map int [0..<2]"
proof -
  have m: "py_max (map length [[[5, 5], [1, 1], [2, 2], [7, 7]], [[9, 9], [8, 8::int]]]) = Inr 4"
    by (simp add: py_max_def)
  have i: "(1::nat) < length [[[5, 5], [1, 1], [2, 2], [7, 7]], [[9, 9], [8, 8::int]]]" by simp
  have c: "(2::nat) = length ([[[5, 5], [1, 1], [2, 2], [7, 7]], [[9, 9], [8, 8::int]]] ! 1)" by simp
  have r: "tokenizer_padding_side example_model \<noteq> ''left''"
    by (simp add: example_model_def)
  have l: "tokenizer_padding_side (example_model\<lparr>tokenizer_padding_side := ''left''\<rparr>) = ''left''"
    by simp
  have d: "int 2 \<le> dtype_max Int64 + 1" "int 2 \<le> dtype_max Int8 + 1"
    by (simp_all add: dtype_max_def dtype_bits_def dtype_signed_def)
  have right: "take 2 ([[0, 1, 2, 3], [0, 1, 0, 0::int]] ! 1) = map int [0..<2]"
    using position_ids_restart [OF example_fuse_and_pad_short m i c] r d(1) by blast
  have left: "drop (4 - 2) ([[0, 1, 2, 3], [0, 0, 0, 1::int]] ! 1) = map int [0..<2]"
    using position_ids_restart [OF example_fuse_and_pad_short_left m i c] l d(2) by blast
  from example_fuse_and_pad_short example_fuse_and_pad_short_left m i d right left
  show ?thesis by (intro conjI)
qed


text \<open>
  Claim C4 (sentinel conservation), as the specification states it: the number of image
  blocks that the fusion of one sample consumes from the flat list of image blocks is the
  number of sentinel tokens of the depadded sample. The code consumes one block for a
  sample without any sentinel: the sample \<open>[9]\<close> has no sentinel and moves the cursor
  from 0 to 1.
\<close>

theorem image_blocks_consumed_counterexample:
  "fuse_sample (- 200) (- 100) (\<lambda>t. [t, t]) [[[1, 1], [2, 2]]] [[9]] 0 [9] ([], [], 0)
     = Inr ([[[9, 9]]], [[9]], 1)
   \<and> num_images (- 200) [9] = 0
   \<and> (1::nat) - 0 \<noteq> num_images (- 200) [9]"
  by (simp add: fuse_sample_def num_images_def py_slice_def)

text \<open>
  Claim C4, amended. Fusing a sample with at least one sentinel token advances the cursor
  into the list of image blocks by the number of its sentinel tokens. Fusing a sample
  with no sentinel token advances it by one; the block drawn adds nothing to the fused
  sample, which is the embedding of its tokens.
\<close>

theorem image_blocks_consumed:
  assumes "fuse_sample tok ign emb feats labels b ids (ne, nl, c) = Inr (ne', nl', c')"
  shows "(num_images tok ids = 0 \<longrightarrow> c' = c + 1 \<and> ne' = ne @ [map emb ids]) \<and>
         (0 < num_images tok ids \<longrightarrow> c' = c + num_images tok ids)"
proof (cases "num_images tok ids = 0")
  case True
  with assms show ?thesis
    by (auto simp: fuse_sample_def py_slice_def Let_def split: if_splits)
next
  case False
  from assms False obtain E L es ls where
    "interleave_loop ign feats E L (num_images tok ids)
       [0..<num_images tok ids + 1] ([], [], c) = Inr (es, ls, c')"
    by (auto simp: fuse_sample_def Let_def split: if_splits sum.splits)
  from interleave_loop_cursor[OF this] False show ?thesis
    by simp
qed

theorem image_blocks_consumed_witness:
  "fuse_sample (- 200) (- 100) (\<lambda>t. [t, t]) [[[1, 1], [2, 2]]] [[5, - 100, 7]] 0 [5, - 200, 7]
       ([], [], 0)
     = Inr ([[[5, 5], [1, 1], [2, 2], [7, 7]]], [[5, - 100, - 100, 7]], 1)
   \<and> 0 < num_images (- 200) [5, - 200, 7]
   \<and> (1::nat) = 0 + num_images (- 200) [5, - 200, 7]
   \<and> fuse_sample (- 200) (- 100) (\<lambda>t. [t, t]) [[[1, 1], [2, 2]]] [[9]] 0 [9] ([], [], 0)
     = Inr ([[[9, 9]]], [[9]], 1)
   \<and> num_images (- 200) [9] = 0
   \<and> (1::nat) = 0 + 1"
proof -
  have n: "num_images (- 200) [5, - 200, 7] = 1" "num_images (- 200) [9] = 0"
    by (simp_all add: num_images_def)
  from image_blocks_consumed [OF example_fuse_sample_image]
       image_blocks_consumed [OF example_fuse_sample_text]
       example_fuse_sample_image example_fuse_sample_text n
  show ?thesis by simp
qed

text \<open>
  Claim C5 (passthrough). Without a vision tower, without images, or when the second
  dimension of the token tensor is 1, the method returns the token ids, the position ids,
  the attention mask, the cache and the labels it was given, and \<open>None\<close> for the
  embeddings.
\<close>

theorem no_image_passthrough:
  assumes "\<not> has_vision_tower self \<or> images = None \<or> shape1 input_ids = 1"
  shows "prepare_inputs_labels_for_multimodal self input_ids position_ids attention_mask
           past_key_values labels images
         = Inr (Some input_ids, position_ids, attention_mask, past_key_values, None, labels)"
  using assms by (auto simp: prepare_inputs_labels_for_multimodal_def split: option.splits)

theorem no_image_passthrough_witness:
  "prepare_inputs_labels_for_multimodal example_model
       \<lparr>shape1 = 3, rows = [[5, 6, 7], [9, 8, 0]]\<rparr>
       (Some \<lparr>shape1 = 3, rows = [[0, 1, 2], [0, 1, 2]], dtype = Int64\<rparr>)
       (Some \<lparr>shape1 = 3, rows = [[1, 1, 1], [1, 1, 0]]\<rparr>) () None None
     = Inr (Some \<lparr>shape1 = 3, rows = [[5, 6, 7], [9, 8, 0]]\<rparr>,
            Some \<lparr>shape1 = 3, rows = [[0, 1, 2], [0, 1, 2]], dtype = Int64\<rparr>,
            Some \<lparr>shape1 = 3, rows = [[1, 1, 1], [1, 1, 0]]\<rparr>, (), None, None)
   \<and> prepare_inputs_labels_for_multimodal example_model
       \<lparr>shape1 = 1, rows = [[5], [9]]\<rparr> None None () None (Some ())
     = Inr (Some \<lparr>shape1 = 1, rows = [[5], [9]]\<rparr>, None, None, (), None, None)"
proof -
  have a: "\<not> has_vision_tower example_model \<or> (None :: unit option) = None
      \<or> shape1 \<lparr>shape1 = 3, rows = [[5, 6, 7], [9, 8, 0::int]]\<rparr> = 1"
    by simp
  have b: "\<not> has_vision_tower example_model \<or> Some () = None
      \<or> shape1 \<lparr>shape1 = 1, rows = [[5], [9::int]]\<rparr> = 1"
    by simp
  show ?thesis
    by (intro conjI no_image_passthrough [OF a] no_image_passthrough [OF b])
qed

text \<open>
  Claim C6 (absence propagation). Whenever the method returns, an attention mask, label
  tensor or position-id tensor that the caller passed as \<open>None\<close> is \<open>None\<close> in the
  result; this holds on the fusion path too, where the method builds defaults for them.
\<close>

theorem absence_propagation:
  assumes "prepare_inputs_labels_for_multimodal self input_ids position_ids attention_mask
             past_key_values labels images
           = Inr (ids', pos', am', kv', emb', lab')"
  shows "(attention_mask = None \<longrightarrow> am' = None) \<and>
         (labels = None \<longrightarrow> lab' = None) \<and>
         (position_ids = None \<longrightarrow> pos' = None)"
  using assms
  by (auto simp: prepare_inputs_labels_for_multimodal_def Let_def
           split: option.splits if_splits sum.splits prod.splits)

theorem absence_propagation_witness:
  "prepare_inputs_labels_for_multimodal example_model
     \<lparr>shape1 = 3, rows = [[5, - 200, 7], [9, 8, - 200]]\<rparr> None None () None (Some ())
   = Inr (None, None, None, (),
          Some \<lparr>shape1 = 4, rows = [[[5, 5], [1, 1], [2, 2], [7, 7]], [[9, 9], [8, 8], [3, 3], [4, 4]]]\<rparr>,
          None)
   \<and> (None :: int tensor2d option) = None"
  using absence_propagation [OF example_prepare_none] example_prepare_none by simp

text \<open>
  Claim C10. When the fusion path runs (a vision tower is present, images are given and
  the second dimension of the token tensor is not 1) and the method returns, the token-id
  slot of the result is \<open>None\<close> and the embeddings slot is not.
\<close>

theorem fusion_returns_no_token_ids:
  assumes "has_vision_tower self" and "images = Some imgs" and "shape1 input_ids \<noteq> 1"
    and "prepare_inputs_labels_for_multimodal self input_ids position_ids attention_mask
             past_key_values labels images
           = Inr (ids', pos', am', kv', emb', lab')"
  shows "ids' = None \<and> emb' \<noteq> None"
  using assms
  by (auto simp: prepare_inputs_labels_for_multimodal_def Let_def
           split: option.splits if_splits sum.splits prod.splits)

theorem fusion_returns_no_token_ids_witness:
  "has_vision_tower example_model
   \<and> shape1 \<lparr>shape1 = 3, rows = [[5, - 200, 7], [9, 0, 0::int]]\<rparr> \<noteq> 1
   \<and> prepare_inputs_labels_for_multimodal example_model
       \<lparr>shape1 = 3, rows = [[5, - 200, 7], [9, 0, 0]]\<rparr>
       (Some \<lparr>shape1 = 3, rows = [[0, 1, 2], [0, 1, 2]], dtype = Int64\<rparr>)
       (Some \<lparr>shape1 = 3, rows = [[1, 1, 1], [1, 0, 0]]\<rparr>) ()
       (Some \<lparr>shape1 = 3, rows = [[- 100, - 200, 7], [9, - 100, - 100]]\<rparr>) (Some ())
     = Inr (None,
          Some \<lparr>shape1 = 4, rows = [[0, 1, 2, 3], [0, 0, 0, 0]], dtype = Int64\<rparr>,
          Some \<lparr>shape1 = 4, rows = [[1, 1, 1, 1], [1, 0, 0, 0]]\<rparr>, (),
          Some \<lparr>shape1 = 4, rows = [[[5, 5], [1, 1], [2, 2], [7, 7]], [[9, 9], [0, 0], [0, 0], [0, 0]]]\<rparr>,
          Some \<lparr>shape1 = 4, rows = [[- 100, - 100, - 100, 7], [9, - 100, - 100, - 100]]\<rparr>)
   \<and> (None :: int tensor2d option) = None
   \<and> Some \<lparr>shape1 = 4, rows = [[[5, 5], [1, 1], [2, 2], [7, 7]], [[9, 9], [0, 0], [0, 0], [0, 0::int]]]\<rparr> \<noteq> None"
proof -
  have v: "has_vision_tower example_model" by (simp add: example_model_def)
  have s: "shape1 \<lparr>shape1 = 3, rows = [[5, - 200, 7], [9, 0, 0::int]]\<rparr> \<noteq> 1" by simp
  from fusion_returns_no_token_ids [OF v refl s example_prepare_some] v s example_prepare_some
  show ?thesis by simp
qed

section \<open>Properties of the checkpoint loader\<close>

text \<open>
  Claim C7 (shard merge). For a manifest \<open>weight_map\<close> (a dictionary: its keys are
  distinct), the merged dictionary maps a tensor name \<open>t\<close> to the value that the shard
  declared for \<open>t\<close> stores under \<open>t\<close> when that shard file exists, and has no entry for
  \<open>t\<close> otherwise (no declared shard, shard file absent, or \<open>t\<close> absent from the shard).
  An absent shard file and a tensor absent from its shard are each reported by a warning
  line, and the merge always yields a dictionary, which \<^verbatim>\<open>from_pretrained\<close> assigns to
  \<^verbatim>\<open>full_state_dict\<close>.
\<close>

theorem shard_merge_complete:
  assumes "distinct (map fst weight_map)"
  shows "map_of (fst (merge_shards fs p weight_map)) t =
           (case map_of weight_map t of
              None \<Rightarrow> None
            | Some file_name \<Rightarrow>
                if isfile fs (path_join p file_name)
                then map_of (load_file fs (path_join p file_name)) t else None)
         \<and> (\<forall>file_name. map_of weight_map t = Some file_name \<and> \<not> isfile fs (path_join p file_name) \<longrightarrow>
               Print (''Warning: Expected safetensors file '' @ path_join p file_name @ '' not found.'')
                 \<in> set (snd (merge_shards fs p weight_map)))
         \<and> (\<forall>file_name. map_of weight_map t = Some file_name \<and> isfile fs (path_join p file_name)
                 \<and> map_of (load_file fs (path_join p file_name)) t = None \<longrightarrow>
               Print (''Warning: Tensor '' @ t @ '' not found in '' @ path_join p file_name)
                 \<in> set (snd (merge_shards fs p weight_map)))
         \<and> (\<not> (isfile fs p \<and> endswith p ''.safetensors'') \<and> isdir fs p
               \<and> \<not> isfile fs (path_join p ''model.safetensors'')
               \<and> isfile fs (path_join p ''model.safetensors.index.json'')
               \<and> json_weight_map fs (path_join p ''model.safetensors.index.json'') = Some weight_map \<longrightarrow>
             fst (resolve_checkpoint fs p) = Assigned (Some (fst (merge_shards fs p weight_map))))"
  using merge_shards_lookup[OF assms] merge_shards_warns_file merge_shards_warns_tensor
    resolve_checkpoint_index
  by blast

theorem shard_merge_complete_witness:
  "distinct (map fst example_weight_map)
   \<and> map_of (fst (merge_shards example_fs ''/ckpt'' example_weight_map)) ''w1'' = Some 11
   \<and> map_of (fst (merge_shards example_fs ''/ckpt'' example_weight_map)) ''w2'' = None
   \<and> map_of (fst (merge_shards example_fs ''/ckpt'' example_weight_map)) ''w3'' = None
   \<and> Print ''Warning: Expected safetensors file /ckpt/shard2.bin not found.''
        \<in> set (snd (merge_shards example_fs ''/ckpt'' example_weight_map))
   \<and> Print ''Warning: Tensor w3 not found in /ckpt/shard1.bin''
        \<in> set (snd (merge_shards example_fs ''/ckpt'' example_weight_map))
   \<and> fst (resolve_checkpoint example_fs ''/ckpt'')
        = Assigned (Some (fst (merge_shards example_fs ''/ckpt'' example_weight_map)))"
proof -
  have d: "distinct (map fst example_weight_map)"
    by (simp add: example_weight_map_def)
  have j: "path_join ''/ckpt'' ''shard1.bin'' = ''/ckpt/shard1.bin''"
    "path_join ''/ckpt'' ''shard2.bin'' = ''/ckpt/shard2.bin''"
    "path_join ''/ckpt'' ''model.safetensors'' = ''/ckpt/model.safetensors''"
    "path_join ''/ckpt'' ''model.safetensors.index.json'' = ''/ckpt/model.safetensors.index.json''"
    by (simp_all add: path_join_def startswith_def endswith_def)
  have m: "map_of example_weight_map ''w1'' = Some ''shard1.bin''"
    "map_of example_weight_map ''w2'' = Some ''shard2.bin''"
    "map_of example_weight_map ''w3'' = Some ''shard1.bin''"
    by (simp_all add: example_weight_map_def)
  have f: "isfile example_fs ''/ckpt/shard1.bin''" "\<not> isfile example_fs ''/ckpt/shard2.bin''"
    "\<not> isfile example_fs ''/ckpt''" "isdir example_fs ''/ckpt''"
    "\<not> isfile example_fs ''/ckpt/model.safetensors''"
    "isfile example_fs ''/ckpt/model.safetensors.index.json''"
    "load_file example_fs ''/ckpt/shard1.bin'' = [(''w1'', 11)]"
    "json_weight_map example_fs ''/ckpt/model.safetensors.index.json'' = Some example_weight_map"
    by (simp_all add: example_fs_def example_weight_map_def)
  from shard_merge_complete [OF d, of example_fs "''/ckpt''" "''w1''"]
       shard_merge_complete [OF d, of example_fs "''/ckpt''" "''w2''"]
       shard_merge_complete [OF d, of example_fs "''/ckpt''" "''w3''"]
  show ?thesis
    using d by (simp add: j m f)
qed

text \<open>
  Claim C8 (no consolidated checkpoint). The specification and the \<^verbatim>\<open>else\<close> branch of
  \<^verbatim>\<open>from_pretrained\<close> say that a path with no consolidated checkpoint leads to the
  standalone loading of each component. In the code \<^verbatim>\<open>full_state_dict\<close> is never
  assigned on that path, and reading it raises UnboundLocalError: for an empty directory
  and for a path that does not exist, whatever the component methods, the keyword
  arguments and the model are.
\<close>

theorem from_pretrained_without_checkpoint:
  "from_pretrained example_fs_empty api (kw\<lparr>pretrained_model_path := Some ''/ckpt''\<rparr>) model
     = (Inl UnboundLocalError, [])
   \<and> from_pretrained example_fs_empty api (kw\<lparr>pretrained_model_path := Some ''/missing''\<rparr>) model
     = (Inl UnboundLocalError, [])"
proof -
  have a: "resolve_checkpoint example_fs_empty ''/ckpt'' = (Unassigned, [])"
    by (rule resolve_checkpoint_unassigned) (simp_all add: example_fs_empty_def)
  have b: "resolve_checkpoint example_fs_empty ''/missing'' = (Unassigned, [])"
    by (rule resolve_checkpoint_unassigned) (simp_all add: example_fs_empty_def)
  show ?thesis by (simp add: from_pretrained_def a b)
qed

text \<open>
  Claim C9 (strictness per component), as the specification states it: the vision encoder
  falls back to a permissive load when its strict load raises, and the connector is
  loaded permissively. On a checkpoint that lacks a key of each component, the strict
  load of the vision tower raises and \<^verbatim>\<open>load_vision_tower\<close> raises with it, although
  the permissive load would succeed; the language model is loaded with only its two fixed
  lines printed; the connector is first loaded strictly and then falls back.
\<close>

theorem component_load_policies_counterexample:
  "load_vision_tower example_methods example_kwargs (Some example_checkpoint) example_composed []
     = (Inl RuntimeError,
        [Print ''Loading vision tower weights from provided checkpoint (full_state_dict)...'',
         PrintError ''Error loading vision tower weights from full_state_dict: '' RuntimeError])
   \<and> load_state_dict example_methods (vision_tower example_composed)
        (route ''vision_tower.'' 13 example_checkpoint []) False = Inr [''w'', ''b'']
   \<and> load_llm example_methods example_kwargs (Some example_checkpoint) example_composed []
     = (Inr (example_composed\<lparr>language_model_frozen := True\<rparr>),
        [Print ''Loading language model weights from provided checkpoint (full_state_dict)...'',
         Print ''Language model weights loaded successfully from full_state_dict.''])
   \<and> load_connector example_methods example_kwargs (Some example_checkpoint) example_composed []
     = (Inr example_composed,
        [Print ''Loading connector weights from provided checkpoint (full_state_dict)...'',
         PrintError ''Error loading connector weights with strict=True from full_state_dict: '' RuntimeError,
         Print ''Attempting to load with strict=False.'',
         Print ''Connector weights loaded successfully with strict=False from full_state_dict.''])"
  by code_simp

text \<open>
  Claim C9, amended. From a merged weight map, the language model is loaded with
  \<^verbatim>\<open>strict=False\<close> only: the result of \<^verbatim>\<open>load_llm\<close> is the same for any two
  \<open>load_state_dict\<close> that agree on permissive loads, and what is printed on success
  does not depend on the keys. The vision tower is loaded with \<^verbatim>\<open>strict=True\<close> only:
  the result of \<^verbatim>\<open>load_vision_tower\<close> is the same for any two \<open>load_state_dict\<close>
  that agree on strict loads, and there is no second load. The connector is loaded with
  \<^verbatim>\<open>strict=True\<close> and, only when that raises a RuntimeError, with
  \<^verbatim>\<open>strict=False\<close>, the error and the fallback being printed. An exception of the
  language model's load or of the vision tower's strict load is the result of the loader;
  it is printed first when it is a RuntimeError and not printed otherwise. An exception
  of the connector's strict load that is no RuntimeError, and any exception of its
  permissive load, is the result of \<^verbatim>\<open>load_connector\<close> and is not printed.
\<close>

theorem component_load_policies:
  "(load_state_dict api (language_model self) (route ''language_model.'' 15 fsd []) False = Inr c1 \<longrightarrow>
      load_llm api kw (Some fsd) self out
        = (Inr (self\<lparr>language_model := c1, language_model_frozen := True\<rparr>),
           out @ [Print ''Loading language model weights from provided checkpoint (full_state_dict)...'',
                  Print ''Language model weights loaded successfully from full_state_dict.'']))
   \<and> (load_state_dict api (language_model self) (route ''language_model.'' 15 fsd []) False = Inl e1 \<longrightarrow>
        load_llm api kw (Some fsd) self out
          = (Inl e1,
             out @ [Print ''Loading language model weights from provided checkpoint (full_state_dict)...'']
                 @ (if is_RuntimeError e1
                    then [PrintError ''Error loading language model weights from full_state_dict: '' e1]
                    else [])))
   \<and> ((\<forall>c sd. load_state_dict api c sd False = load_state_dict api' c sd False) \<longrightarrow>
        load_llm api kw (Some fsd) self out = load_llm api' kw (Some fsd) self out)
   \<and> (load_state_dict api (vision_tower self) (route ''vision_tower.'' 13 fsd []) True = Inr c2 \<longrightarrow>
        load_vision_tower api kw (Some fsd) self out
          = (Inr (self\<lparr>vision_tower := c2\<rparr>),
             out @ [Print ''Loading vision tower weights from provided checkpoint (full_state_dict)...'',
                    Print ''Vision tower weights loaded successfully from full_state_dict.'']))
   \<and> (load_state_dict api (vision_tower self) (route ''vision_tower.'' 13 fsd []) True = Inl e2 \<longrightarrow>
        load_vision_tower api kw (Some fsd) self out
          = (Inl e2,
             out @ [Print ''Loading vision tower weights from provided checkpoint (full_state_dict)...'']
                 @ (if is_RuntimeError e2
                    then [PrintError ''Error loading vision tower weights from full_state_dict: '' e2]
                    else [])))
   \<and> ((\<forall>c sd. load_state_dict api c sd True = load_state_dict api' c sd True) \<longrightarrow>
        load_vision_tower api kw (Some fsd) self out
          = load_vision_tower api' kw (Some fsd) self out)
   \<and> (load_state_dict api (connector self) (route ''connector.'' 10 fsd []) True = Inr c3 \<longrightarrow>
        load_connector api kw (Some fsd) self out
          = (Inr (self\<lparr>connector := c3\<rparr>),
             out @ [Print ''Loading connector weights from provided checkpoint (full_state_dict)...'',
                    Print ''Connector weights loaded successfully from full_state_dict.'']))
   \<and> (load_state_dict api (connector self) (route ''connector.'' 10 fsd []) True = Inl e3
        \<and> is_RuntimeError e3
        \<and> load_state_dict api (connector self) (route ''connector.'' 10 fsd []) False = Inr c4 \<longrightarrow>
        load_connector api kw (Some fsd) self out
          = (Inr (self\<lparr>connector := c4\<rparr>),
             out @ [Print ''Loading connector weights from provided checkpoint (full_state_dict)...'',
                    PrintError ''Error loading connector weights with strict=True from full_state_dict: '' e3,
                    Print ''Attempting to load with strict=False.'',
                    Print ''Connector weights loaded successfully with strict=False from full_state_dict.'']))
   \<and> (load_state_dict api (connector self) (route ''connector.'' 10 fsd []) True = Inl e3
        \<and> is_RuntimeError e3
        \<and> load_state_dict api (connector self) (route ''connector.'' 10 fsd []) False = Inl e4 \<longrightarrow>
        load_connector api kw (Some fsd) self out
          = (Inl e4,
             out @ [Print ''Loading connector weights from provided checkpoint (full_state_dict)...'',
                    PrintError ''Error loading connector weights with strict=True from full_state_dict: '' e3,
                    Print ''Attempting to load with strict=False.'']))
   \<and> (load_state_dict api (connector self) (route ''connector.'' 10 fsd []) True = Inl e5
        \<and> \<not> is_RuntimeError e5 \<longrightarrow>
        load_connector api kw (Some fsd) self out
          = (Inl e5,
             out @ [Print ''Loading connector weights from provided checkpoint (full_state_dict)...'']))"
proof -
  have llm: "load_state_dict api (language_model self) (route ''language_model.'' 15 fsd []) False = Inr c1 \<longrightarrow>
      load_llm api kw (Some fsd) self out
        = (Inr (self\<lparr>language_model := c1, language_model_frozen := True\<rparr>),
           out @ [Print ''Loading language model weights from provided checkpoint (full_state_dict)...'',
                  Print ''Language model weights loaded successfully from full_state_dict.''])"
    by (simp add: load_llm_def Let_def)
  have llm_raise: "load_state_dict api (language_model self) (route ''language_model.'' 15 fsd []) False = Inl e1 \<longrightarrow>
        load_llm api kw (Some fsd) self out
          = (Inl e1,
             out @ [Print ''Loading language model weights from provided checkpoint (full_state_dict)...'']
                 @ (if is_RuntimeError e1
                    then [PrintError ''Error loading language model weights from full_state_dict: '' e1]
                    else []))"
    by (simp add: load_llm_def Let_def)
  have llm_only: "(\<forall>c sd. load_state_dict api c sd False = load_state_dict api' c sd False) \<longrightarrow>
        load_llm api kw (Some fsd) self out = load_llm api' kw (Some fsd) self out"
    by (simp add: load_llm_def Let_def)
  have vt_ok: "load_state_dict api (vision_tower self) (route ''vision_tower.'' 13 fsd []) True = Inr c2 \<longrightarrow>
        load_vision_tower api kw (Some fsd) self out
          = (Inr (self\<lparr>vision_tower := c2\<rparr>),
             out @ [Print ''Loading vision tower weights from provided checkpoint (full_state_dict)...'',
                    Print ''Vision tower weights loaded successfully from full_state_dict.''])"
    by (simp add: load_vision_tower_def Let_def)
  have vt_raise: "load_state_dict api (vision_tower self) (route ''vision_tower.'' 13 fsd []) True = Inl e2 \<longrightarrow>
        load_vision_tower api kw (Some fsd) self out
          = (Inl e2,
             out @ [Print ''Loading vision tower weights from provided checkpoint (full_state_dict)...'']
                 @ (if is_RuntimeError e2
                    then [PrintError ''Error loading vision tower weights from full_state_dict: '' e2]
                    else []))"
    by (simp add: load_vision_tower_def Let_def)
  have vt_only: "(\<forall>c sd. load_state_dict api c sd True = load_state_dict api' c sd True) \<longrightarrow>
        load_vision_tower api kw (Some fsd) self out
          = load_vision_tower api' kw (Some fsd) self out"
    by (simp add: load_vision_tower_def Let_def)
  have co_ok: "load_state_dict api (connector self) (route ''connector.'' 10 fsd []) True = Inr c3 \<longrightarrow>
        load_connector api kw (Some fsd) self out
          = (Inr (self\<lparr>connector := c3\<rparr>),
             out @ [Print ''Loading connector weights from provided checkpoint (full_state_dict)...'',
                    Print ''Connector weights loaded successfully from full_state_dict.''])"
    by (simp add: load_connector_def Let_def)
  have co_fallback: "load_state_dict api (connector self) (route ''connector.'' 10 fsd []) True = Inl e3
        \<and> is_RuntimeError e3
        \<and> load_state_dict api (connector self) (route ''connector.'' 10 fsd []) False = Inr c4 \<longrightarrow>
        load_connector api kw (Some fsd) self out
          = (Inr (self\<lparr>connector := c4\<rparr>),
             out @ [Print ''Loading connector weights from provided checkpoint (full_state_dict)...'',
                    PrintError ''Error loading connector weights with strict=True from full_state_dict: '' e3,
                    Print ''Attempting to load with strict=False.'',
                    Print ''Connector weights loaded successfully with strict=False from full_state_dict.''])"
    by (simp add: load_connector_def Let_def)
  have co_fallback_raise: "load_state_dict api (connector self) (route ''connector.'' 10 fsd []) True = Inl e3
        \<and> is_RuntimeError e3
        \<and> load_state_dict api (connector self) (route ''connector.'' 10 fsd []) False = Inl e4 \<longrightarrow>
        load_connector api kw (Some fsd) self out
          = (Inl e4,
             out @ [Print ''Loading connector weights from provided checkpoint (full_state_dict)...'',
                    PrintError ''Error loading connector weights with strict=True from full_state_dict: '' e3,
                    Print ''Attempting to load with strict=False.''])"
    by (simp add: load_connector_def Let_def)
  have co_other: "load_state_dict api (connector self) (route ''connector.'' 10 fsd []) True = Inl e5
        \<and> \<not> is_RuntimeError e5 \<longrightarrow>
        load_connector api kw (Some fsd) self out
          = (Inl e5,
             out @ [Print ''Loading connector weights from provided checkpoint (full_state_dict)...''])"
    by (simp add: load_connector_def Let_def)
  from llm llm_raise llm_only vt_ok vt_raise vt_only co_ok co_fallback co_fallback_raise co_other
  show ?thesis by (intro conjI)
qed

theorem component_load_policies_witness:
  "load_llm example_methods example_kwargs (Some example_checkpoint) example_composed []
       = (Inr (example_composed\<lparr>language_model := [''w''], language_model_frozen := True\<rparr>),
          [] @ [Print ''Loading language model weights from provided checkpoint (full_state_dict)...'',
                Print ''Language model weights loaded successfully from full_state_dict.''])
   \<and> load_llm example_methods_broken example_kwargs (Some example_checkpoint) example_composed []
       = (Inl TypeError,
          [] @ [Print ''Loading language model weights from provided checkpoint (full_state_dict)...'']
             @ [])
   \<and> load_llm example_methods example_kwargs (Some example_checkpoint) example_composed []
       = load_llm example_methods_lenient example_kwargs (Some example_checkpoint) example_composed []
   \<and> load_vision_tower example_methods example_kwargs (Some example_checkpoint_full)
         example_composed []
       = (Inr (example_composed\<lparr>vision_tower := [''w'', ''b'']\<rparr>),
          [] @ [Print ''Loading vision tower weights from provided checkpoint (full_state_dict)...'',
                Print ''Vision tower weights loaded successfully from full_state_dict.''])
   \<and> load_vision_tower example_methods example_kwargs (Some example_checkpoint) example_composed []
       = (Inl RuntimeError,
          [] @ [Print ''Loading vision tower weights from provided checkpoint (full_state_dict)...'']
             @ [PrintError ''Error loading vision tower weights from full_state_dict: '' RuntimeError])
   \<and> load_vision_tower example_methods_broken example_kwargs (Some example_checkpoint)
         example_composed []
       = (Inl TypeError,
          [] @ [Print ''Loading vision tower weights from provided checkpoint (full_state_dict)...'']
             @ [])
   \<and> load_vision_tower example_methods example_kwargs (Some example_checkpoint) example_composed []
       = load_vision_tower example_methods_rigid example_kwargs (Some example_checkpoint)
           example_composed []
   \<and> load_connector example_methods example_kwargs (Some example_checkpoint_full)
         example_composed []
       = (Inr (example_composed\<lparr>connector := [''w'', ''b'']\<rparr>),
          [] @ [Print ''Loading connector weights from provided checkpoint (full_state_dict)...'',
                Print ''Connector weights loaded successfully from full_state_dict.''])
   \<and> load_connector example_methods example_kwargs (Some example_checkpoint) example_composed []
       = (Inr (example_composed\<lparr>connector := [''w'', ''b'']\<rparr>),
          [] @ [Print ''Loading connector weights from provided checkpoint (full_state_dict)...'',
                PrintError ''Error loading connector weights with strict=True from full_state_dict: '' RuntimeError,
                Print ''Attempting to load with strict=False.'',
                Print ''Connector weights loaded successfully with strict=False from full_state_dict.''])
   \<and> load_connector example_methods_rigid example_kwargs (Some example_checkpoint)
         example_composed []
       = (Inl OtherError,
          [] @ [Print ''Loading connector weights from provided checkpoint (full_state_dict)...'',
                PrintError ''Error loading connector weights with strict=True from full_state_dict: '' RuntimeError,
                Print ''Attempting to load with strict=False.''])
   \<and> load_connector example_methods_broken example_kwargs (Some example_checkpoint)
         example_composed []
       = (Inl TypeError,
          [] @ [Print ''Loading connector weights from provided checkpoint (full_state_dict)...''])"
proof -
  note a = component_load_policies [where api = example_methods and self = example_composed
      and fsd = example_checkpoint and kw = example_kwargs and out = "[]"
      and api' = example_methods_lenient
      and ?c1.0 = "[''w'']" and ?e2.0 = RuntimeError
      and ?e3.0 = RuntimeError and ?c4.0 = "[''w'', ''b'']"]
  note b = component_load_policies [where api = example_methods and self = example_composed
      and fsd = example_checkpoint_full and kw = example_kwargs and out = "[]"
      and ?c2.0 = "[''w'', ''b'']" and ?c3.0 = "[''w'', ''b'']"]
  note c = component_load_policies [where api = example_methods and self = example_composed
      and fsd = example_checkpoint and kw = example_kwargs and out = "[]"
      and api' = example_methods_rigid]
  note d = component_load_policies [where api = example_methods_broken and self = example_composed
      and fsd = example_checkpoint and kw = example_kwargs and out = "[]"
      and ?e1.0 = TypeError and ?e2.0 = TypeError and ?e5.0 = TypeError]
  note e = component_load_policies [where api = example_methods_rigid and self = example_composed
      and fsd = example_checkpoint and kw = example_kwargs and out = "[]"
      and ?e3.0 = RuntimeError and ?e4.0 = OtherError]
  note h = example_load_state_dict example_load_state_dict_raises
  have w1: "load_llm example_methods example_kwargs (Some example_checkpoint) example_composed []
       = (Inr (example_composed\<lparr>language_model := [''w''], language_model_frozen := True\<rparr>),
          [] @ [Print ''Loading language model weights from provided checkpoint (full_state_dict)...'',
                Print ''Language model weights loaded successfully from full_state_dict.''])"
    using a h by blast
  have w2: "load_llm example_methods_broken example_kwargs (Some example_checkpoint) example_composed []
       = (Inl TypeError,
          [] @ [Print ''Loading language model weights from provided checkpoint (full_state_dict)...'']
             @ [])"
    using d h by simp
  have w3: "load_llm example_methods example_kwargs (Some example_checkpoint) example_composed []
       = load_llm example_methods_lenient example_kwargs (Some example_checkpoint) example_composed []"
    using a example_agree(1) by blast
  have w4: "load_vision_tower example_methods example_kwargs (Some example_checkpoint_full)
         example_composed []
       = (Inr (example_composed\<lparr>vision_tower := [''w'', ''b'']\<rparr>),
          [] @ [Print ''Loading vision tower weights from provided checkpoint (full_state_dict)...'',
                Print ''Vision tower weights loaded successfully from full_state_dict.''])"
    using b h by blast
  have w5: "load_vision_tower example_methods example_kwargs (Some example_checkpoint) example_composed []
       = (Inl RuntimeError,
          [] @ [Print ''Loading vision tower weights from provided checkpoint (full_state_dict)...'']
             @ [PrintError ''Error loading vision tower weights from full_state_dict: '' RuntimeError])"
    using a h by simp
  have w6: "load_vision_tower example_methods_broken example_kwargs (Some example_checkpoint)
         example_composed []
       = (Inl TypeError,
          [] @ [Print ''Loading vision tower weights from provided checkpoint (full_state_dict)...'']
             @ [])"
    using d h by simp
  have w7: "load_vision_tower example_methods example_kwargs (Some example_checkpoint) example_composed []
       = load_vision_tower example_methods_rigid example_kwargs (Some example_checkpoint)
           example_composed []"
    using c example_agree(2) by blast
  have w8: "load_connector example_methods example_kwargs (Some example_checkpoint_full)
         example_composed []
       = (Inr (example_composed\<lparr>connector := [''w'', ''b'']\<rparr>),
          [] @ [Print ''Loading connector weights from provided checkpoint (full_state_dict)...'',
                Print ''Connector weights loaded successfully from full_state_dict.''])"
    using b h by blast
  have w9: "load_connector example_methods example_kwargs (Some example_checkpoint) example_composed []
       = (Inr (example_composed\<lparr>connector := [''w'', ''b'']\<rparr>),
          [] @ [Print ''Loading connector weights from provided checkpoint (full_state_dict)...'',
                PrintError ''Error loading connector weights with strict=True from full_state_dict: '' RuntimeError,
                Print ''Attempting to load with strict=False.'',
                Print ''Connector weights loaded successfully with strict=False from full_state_dict.''])"
    using a h by blast
  have w10: "load_connector example_methods_rigid example_kwargs (Some example_checkpoint)
         example_composed []
       = (Inl OtherError,
          [] @ [Print ''Loading connector weights from provided checkpoint (full_state_dict)...'',
                PrintError ''Error loading connector weights with strict=True from full_state_dict: '' RuntimeError,
                Print ''Attempting to load with strict=False.''])"
    using e h by blast
  have w11: "load_connector example_methods_broken example_kwargs (Some example_checkpoint)
         example_composed []
       = (Inl TypeError,
          [] @ [Print ''Loading connector weights from provided checkpoint (full_state_dict)...''])"
    using d h by blast
  from w1 w2 w3 w4 w5 w6 w7 w8 w9 w10 w11 show ?thesis by (intro conjI)
qed

end
